theory Spec2Isabelle
  imports Main "HOL-Library.Sublist" "HOL-Library.Word"
begin

section \<open>JavaScript values used by the sources\<close>

text \<open>
  A JavaScript string is a sequence of 16-bit code units. \<open>ch\<close> is the code unit of a
  character of the Latin-1 range and \<open>js\<close> the string of a text written in such
  characters; every string literal of the sources is one.
\<close>

type_synonym jchar = "16 word"

type_synonym jstring = "jchar list"

definition ch :: "char \<Rightarrow> jchar" where
  "ch c = of_char c"

definition js :: "string \<Rightarrow> jstring" where
  "js s = map ch s"

definition dq :: jchar where
  "dq = ch CHR 0x22"

text \<open>
  \<open>\s\<close> of the regular expressions, which is also what \<open>trim\<close> removes: the white
  space and line terminators of ECMAScript, that is tab, line feed, vertical tab, form
  feed, carriage return, space, U+00A0, U+1680, U+2000 to U+200A, U+2028, U+2029,
  U+202F, U+205F, U+3000 and U+FEFF. \<open>\d\<close> is \<open>0\<close> to \<open>9\<close>.
\<close>

definition wide_space :: "jchar list" where
  "wide_space =
     [0x1680, 0x2000, 0x2001, 0x2002, 0x2003, 0x2004, 0x2005, 0x2006, 0x2007, 0x2008,
      0x2009, 0x200A, 0x2028, 0x2029, 0x202F, 0x205F, 0x3000, 0xFEFF]"

definition is_space :: "jchar \<Rightarrow> bool" where
  "is_space c \<longleftrightarrow>
     c \<in> set [ch CHR 0x09, ch CHR 0x0A, ch CHR 0x0B, ch CHR 0x0C, ch CHR 0x0D, ch CHR '' '',
              ch CHR 0xA0] \<or>
     c \<in> set wide_space"

definition is_digit :: "jchar \<Rightarrow> bool" where
  "is_digit c \<longleftrightarrow> c \<in> set (js ''0123456789'')"

definition is_lower :: "jchar \<Rightarrow> bool" where
  "is_lower c \<longleftrightarrow> c \<in> set (js ''abcdefghijklmnopqrstuvwxyz'')"

definition is_upper :: "jchar \<Rightarrow> bool" where
  "is_upper c \<longleftrightarrow> c \<in> set (js ''ABCDEFGHIJKLMNOPQRSTUVWXYZ'')"

definition is_alpha :: "jchar \<Rightarrow> bool" where
  "is_alpha c \<longleftrightarrow> is_lower c \<or> is_upper c"

definition digit_val :: "jchar \<Rightarrow> nat" where
  "digit_val c = length (takeWhile (\<lambda>d. d \<noteq> c) (js ''0123456789''))"

text \<open>\<open>String.prototype.trim\<close>, \<open>includes\<close> and \<open>startsWith\<close>.\<close>

definition trim :: "jstring \<Rightarrow> jstring" where
  "trim s = rev (dropWhile is_space (rev (dropWhile is_space s)))"

fun str_includes :: "jstring \<Rightarrow> jstring \<Rightarrow> bool" where
  "str_includes [] needle = (needle = [])"
| "str_includes (c # cs) needle = (prefix needle (c # cs) \<or> str_includes cs needle)"

definition startsWith :: "jstring \<Rightarrow> jstring \<Rightarrow> bool" where
  "startsWith s p = prefix p s"

text \<open>
  Numbers that reach a template literal are integers (ports, exit codes); \<open>show_int\<close> is
  their decimal \<open>String(n)\<close>.
\<close>

fun show_nat :: "nat \<Rightarrow> jstring" where
  "show_nat n =
     (if n < 10 then [js ''0123456789'' ! n]
      else show_nat (n div 10) @ [js ''0123456789'' ! (n mod 10)])"

declare show_nat.simps [simp del]

definition show_int :: "int \<Rightarrow> jstring" where
  "show_int n = (if n < 0 then ch CHR ''-'' # show_nat (nat (- n)) else show_nat (nat n))"


text \<open>
  A promise is resolved with a value, rejected with an error, or never settled.
  \<open>await\<close> continues with the value, rethrows the error, or never continues; the
  state reached so far is kept in each case.
\<close>

datatype 'a promise = Resolved 'a | Rejected jstring | Pending

definition await :: "'a promise \<times> 's \<Rightarrow> ('a \<Rightarrow> 's \<Rightarrow> 'b promise \<times> 's) \<Rightarrow> 'b promise \<times> 's" where
  "await p k =
     (case p of
        (Resolved x, s) \<Rightarrow> k x s
      | (Rejected e, s) \<Rightarrow> (Rejected e, s)
      | (Pending, s) \<Rightarrow> (Pending, s))"

section \<open>utils/config-loader.js: the configuration object\<close>

text \<open>
  The object built by \<open>load\<close>. Fields of the nested tables that share a name in the
  source (\<open>Enabled\<close>, \<open>Host\<close>, \<open>Port\<close>, \<open>Password\<close>) carry the table's name as a prefix.
\<close>

record superuser_config =
  Superuser_Email :: jstring
  Superuser_Password :: jstring

record migrations_config =
  AutoApply :: bool
  Dir :: jstring

record backup_config =
  Backup_Enabled :: bool
  OnStartup :: bool
  Schedule :: int
  KeepLast :: int
  BackupPrefix :: jstring

record smtp_config =
  SMTP_Enabled :: bool
  SMTP_Host :: jstring
  SMTP_Port :: int
  SMTP_Username :: jstring
  SMTP_Password :: jstring
  SMTP_LocalName :: jstring
  SMTP_TLS :: bool

record s3_config =
  S3_Enabled :: bool
  S3_Bucket :: jstring
  S3_Region :: jstring
  S3_Endpoint :: jstring
  S3_AccessKey :: jstring
  S3_SecretKey :: jstring
  S3_ForcePathStyle :: bool

record advanced_config =
  Dev :: bool
  AutoMigrate :: bool
  PublicDir :: jstring
  DataDir :: jstring
  SMTP :: smtp_config
  S3 :: s3_config

record config =
  ExposeAdmin :: bool
  Host :: jstring
  Port :: int
  AutoUpdate :: bool
  Superuser :: superuser_config
  Migrations :: migrations_config
  Backup :: backup_config
  Advanced :: advanced_config

text \<open>The defaults that \<open>load\<close> starts from.\<close>

definition default_config :: config where
  "default_config =
     \<lparr>ExposeAdmin = False, Host = [], Port = 8090, AutoUpdate = False,
      Superuser = \<lparr>Superuser_Email = [], Superuser_Password = []\<rparr>,
      Migrations = \<lparr>AutoApply = True, Dir = js ''pb_migrations''\<rparr>,
      Backup = \<lparr>Backup_Enabled = False, OnStartup = True, Schedule = 0, KeepLast = 7,
                BackupPrefix = js ''auto_''\<rparr>,
      Advanced =
        \<lparr>Dev = False, AutoMigrate = True, PublicDir = js ''pb_public'', DataDir = js ''pb_data'',
         SMTP = \<lparr>SMTP_Enabled = False, SMTP_Host = [], SMTP_Port = 587, SMTP_Username = [],
                 SMTP_Password = [], SMTP_LocalName = [], SMTP_TLS = True\<rparr>,
         S3 = \<lparr>S3_Enabled = False, S3_Bucket = [], S3_Region = [], S3_Endpoint = [],
               S3_AccessKey = [], S3_SecretKey = [], S3_ForcePathStyle = False\<rparr>\<rparr>\<rparr>"

section \<open>utils/process-utils.js: retryWithBackoff\<close>

text \<open>
  The operation \<open>fn\<close> is an effectful JavaScript function; it is modelled by the
  outcomes of its successive invocations: \<open>fn k\<close> is what the \<open>k\<close>-th call
  (counted from 1) does, \<open>Inr v\<close> when it returns \<open>v\<close> and \<open>Inl e\<close> when it throws
  \<open>e\<close>. A run of the wrapper records the final outcome (\<open>Inl lastError\<close> for the
  final \<open>throw lastError\<close>, where \<open>lastError\<close> is \<open>None\<close> while still undefined), the
  number of invocations of \<open>fn\<close> and the delays handed to \<open>setTimeout\<close>, in order.
  Delays are integers: \<open>Math.pow(2, attempt - 1)\<close> is exact on doubles for the attempt
  counts considered here.
\<close>

record 'a retry_run =
  outcome :: "jstring option + 'a"
  calls :: nat
  delays :: "int list"

definition backoff_delay :: "int \<Rightarrow> int \<Rightarrow> nat \<Rightarrow> int" where
  "backoff_delay baseDelay maxDelay attempt = min (baseDelay * 2 ^ (attempt - 1)) maxDelay"

function retry_loop ::
  "(nat \<Rightarrow> jstring + 'a) \<Rightarrow> nat \<Rightarrow> int \<Rightarrow> int \<Rightarrow> nat \<Rightarrow> jstring option \<Rightarrow> int list \<Rightarrow> 'a retry_run"
where
  "retry_loop fn maxAttempts baseDelay maxDelay attempt lastError ds =
     (if attempt \<le> maxAttempts then
        (case fn attempt of
           Inr v \<Rightarrow> \<lparr>outcome = Inr v, calls = attempt, delays = ds\<rparr>
         | Inl e \<Rightarrow>
             (if attempt < maxAttempts
              then retry_loop fn maxAttempts baseDelay maxDelay (Suc attempt) (Some e)
                     (ds @ [backoff_delay baseDelay maxDelay attempt])
              else retry_loop fn maxAttempts baseDelay maxDelay (Suc attempt) (Some e) ds))
      else \<lparr>outcome = Inl lastError, calls = attempt - 1, delays = ds\<rparr>)"
  by pat_completeness auto
termination
  by (relation "measure (\<lambda>(fn, maxAttempts, baseDelay, maxDelay, attempt, lastError, ds).
        Suc maxAttempts - attempt)") auto

declare retry_loop.simps [simp del]

definition retryWithBackoff ::
  "(nat \<Rightarrow> jstring + 'a) \<Rightarrow> nat \<Rightarrow> int \<Rightarrow> int \<Rightarrow> 'a retry_run" where
  "retryWithBackoff fn maxAttempts baseDelay maxDelay =
     retry_loop fn maxAttempts baseDelay maxDelay 1 None []"


section \<open>utils/process-utils.js: spawnWithTimeout\<close>

text \<open>
  \<open>spawn\<close> is Node's \<open>child_process.spawn\<close>. It either throws synchronously or
  returns a child process, which then emits events. The operating system is the
  parameter \<open>os\<close>: for a command line it gives what \<open>spawn\<close> does. Of Node's own
  synchronous argument checks the one on the command is written out: an empty command
  makes \<open>spawn\<close> throw \<open>ERR_INVALID_ARG_VALUE\<close> before any process is created.

  The events of a child are listed in the order in which the event loop runs their
  callbacks, the two timers of \<open>spawnWithTimeout\<close> among them: \<open>TimeoutElapsed ok\<close>
  is the \<open>timeoutMs\<close> timer coming due and \<open>GraceElapsed ok\<close> the nested 1000 ms timer,
  where \<open>ok\<close> says whether a \<open>kill\<close> issued at that moment delivers its signal
  (\<open>kill\<close> sets \<open>childProcess.killed\<close> exactly then). A timer that was cleared or never
  armed does nothing when the list names it.
\<close>

datatype child_event =
    StdoutData jstring
  | StderrData jstring
  | CloseEv "int option"
  | ErrorEv jstring
  | TimeoutElapsed bool
  | GraceElapsed bool

datatype spawn_outcome = SpawnThrows jstring | Child "child_event list"

type_synonym os_model = "jstring \<Rightarrow> jstring list \<Rightarrow> spawn_outcome"

definition spawn :: "os_model \<Rightarrow> jstring \<Rightarrow> jstring list \<Rightarrow> spawn_outcome" where
  "spawn os command args =
     (if command = [] then SpawnThrows (js ''ERR_INVALID_ARG_VALUE'') else os command args)"

record spawn_result =
  code :: "int option"
  stdout :: jstring
  stderr :: jstring

text \<open>
  The closure state of one \<open>spawnWithTimeout\<close> call: the two accumulators, the value
  the promise was resolved with (the first \<open>resolve\<close> wins), whether each timer is
  armed, \<open>childProcess.killed\<close>, and the signals sent so far.
\<close>

record spawn_state =
  out_acc :: jstring
  err_acc :: jstring
  settled :: "spawn_result option"
  timeout_armed :: bool
  grace_armed :: bool
  killed :: bool
  signals :: "jstring list"

definition resolve_once :: "spawn_result \<Rightarrow> spawn_state \<Rightarrow> spawn_state" where
  "resolve_once r st = (case settled st of None \<Rightarrow> st\<lparr>settled := Some r\<rparr> | Some _ \<Rightarrow> st)"

fun child_step :: "spawn_state \<Rightarrow> child_event \<Rightarrow> spawn_state" where
  "child_step st (StdoutData d) = st\<lparr>out_acc := out_acc st @ d\<rparr>"
| "child_step st (StderrData d) = st\<lparr>err_acc := err_acc st @ d\<rparr>"
| "child_step st (CloseEv c) =
     resolve_once \<lparr>code = c, stdout = out_acc st, stderr = err_acc st\<rparr>
       (st\<lparr>timeout_armed := False\<rparr>)"
| "child_step st (ErrorEv msg) =
     resolve_once \<lparr>code = Some (- 1), stdout = out_acc st, stderr = msg\<rparr>
       (st\<lparr>timeout_armed := False\<rparr>)"
| "child_step st (TimeoutElapsed ok) =
     (if \<not> timeout_armed st then st
      else if \<not> killed st
      then st\<lparr>timeout_armed := False, signals := signals st @ [js ''SIGTERM''], killed := ok,
              grace_armed := True\<rparr>
      else st\<lparr>timeout_armed := False\<rparr>)"
| "child_step st (GraceElapsed ok) =
     (if \<not> grace_armed st then st
      else if \<not> killed st
      then st\<lparr>grace_armed := False, signals := signals st @ [js ''SIGKILL''], killed := ok\<rparr>
      else st\<lparr>grace_armed := False\<rparr>)"

definition spawn_start :: spawn_state where
  "spawn_start =
     \<lparr>out_acc = [], err_acc = [], settled = None, timeout_armed = True, grace_armed = False,
      killed = False, signals = []\<rparr>"

definition child_run :: "child_event list \<Rightarrow> spawn_state" where
  "child_run evs = foldl child_step spawn_start evs"

text \<open>
  The promise returned by \<open>spawnWithTimeout\<close>. The executor runs \<open>spawn\<close> first; an
  exception thrown inside a promise executor rejects the promise.
\<close>

definition spawnWithTimeout :: "os_model \<Rightarrow> jstring \<Rightarrow> jstring list \<Rightarrow> nat \<Rightarrow> spawn_result promise" where
  "spawnWithTimeout os command args timeoutMs =
     (case spawn os command args of
        SpawnThrows e \<Rightarrow> Rejected e
      | Child evs \<Rightarrow>
          (case settled (child_run evs) of
             Some r \<Rightarrow> Resolved r
           | None \<Rightarrow> Pending))"

section \<open>utils/config-loader.js: reading and rewriting the configuration document\<close>

subsection \<open>The regular expressions\<close>

text \<open>
  A pattern is given by its matcher at one position: applied to the text that starts
  there it returns the matched text, the captured groups and the rest, or \<open>None\<close>. Every
  pattern of the loader is a key, \<open>\s*=\s*\<close> and a value; a greedy quantifier in them
  is always followed by a character outside its class, so the backtracking matcher of
  JavaScript has a single way to match, which is the one written here.
\<close>

type_synonym regex = "jstring \<Rightarrow> (jstring \<times> jstring list \<times> jstring) option"

text \<open>\<open>KEY\s*=\s*\<close>: the matched text and the rest.\<close>

definition key_eq :: "jstring \<Rightarrow> jstring \<Rightarrow> (jstring \<times> jstring) option" where
  "key_eq key s =
     (if prefix key s then
        (let r1 = drop (length key) s;
             w1 = takeWhile is_space r1;
             r2 = dropWhile is_space r1
         in case r2 of
              [] \<Rightarrow> None
            | c # r3 \<Rightarrow>
                if c = ch CHR ''=''
                then Some (key @ w1 @ js ''='' @ takeWhile is_space r3, dropWhile is_space r3)
                else None)
      else None)"

text \<open>\<open>"([^"]*)"\<close>: the text between the quotes and the rest.\<close>

definition quoted :: "jstring \<Rightarrow> (jstring \<times> jstring) option" where
  "quoted s =
     (case s of
        [] \<Rightarrow> None
      | c # r \<Rightarrow>
          if c = dq then
            (case dropWhile (\<lambda>x. x \<noteq> dq) r of
               [] \<Rightarrow> None
             | _ # rest \<Rightarrow> Some (takeWhile (\<lambda>x. x \<noteq> dq) r, rest))
          else None)"

text \<open>\<open>\d+\<close>.\<close>

definition digits :: "jstring \<Rightarrow> (jstring \<times> jstring) option" where
  "digits s =
     (if takeWhile is_digit s = [] then None
      else Some (takeWhile is_digit s, dropWhile is_digit s))"

text \<open>\<open>(true|false)\<close>.\<close>

definition boolean :: "jstring \<Rightarrow> (jstring \<times> jstring) option" where
  "boolean s =
     (if prefix (js ''true'') s then Some (js ''true'', drop 4 s)
      else if prefix (js ''false'') s then Some (js ''false'', drop 5 s)
      else None)"

text \<open>\<open>\{([^}]+)\}\<close>: the text between the braces and the rest.\<close>

definition braced :: "jstring \<Rightarrow> (jstring \<times> jstring) option" where
  "braced s =
     (case s of
        [] \<Rightarrow> None
      | c # r \<Rightarrow>
          if c = ch CHR ''{'' \<and> takeWhile (\<lambda>x. x \<noteq> ch CHR ''}'') r \<noteq> [] then
            (case dropWhile (\<lambda>x. x \<noteq> ch CHR ''}'') r of
               [] \<Rightarrow> None
             | _ # rest \<Rightarrow> Some (takeWhile (\<lambda>x. x \<noteq> ch CHR ''}'') r, rest))
          else None)"

text \<open>\<open>/(KEY\s*=\s*)"([^"]*)"/\<close>, with its two groups.\<close>

definition re_assign_quoted_groups :: "jstring \<Rightarrow> regex" where
  "re_assign_quoted_groups key s =
     (case key_eq key s of
        None \<Rightarrow> None
      | Some (k, r) \<Rightarrow>
          (case quoted r of
             None \<Rightarrow> None
           | Some (v, rest) \<Rightarrow> Some (k @ [dq] @ v @ [dq], [k, v], rest)))"



text \<open>\<open>/KEY\s*=\s*(true|false)/\<close>.\<close>

definition re_assign_boolean :: "jstring \<Rightarrow> regex" where
  "re_assign_boolean key s =
     (case key_eq key s of
        None \<Rightarrow> None
      | Some (k, r) \<Rightarrow>
          (case boolean r of
             None \<Rightarrow> None
           | Some (v, rest) \<Rightarrow> Some (k @ v, [v], rest)))"

text \<open>\<open>/KEY\s*=\s*"([^"]*)"/\<close> and \<open>/KEY\s*=\s*(\d+)/\<close>, whose one group is the value.\<close>

definition re_value_quoted :: "jstring \<Rightarrow> regex" where
  "re_value_quoted key s =
     (case key_eq key s of
        None \<Rightarrow> None
      | Some (k, r) \<Rightarrow>
          (case quoted r of
             None \<Rightarrow> None
           | Some (v, rest) \<Rightarrow> Some (k @ [dq] @ v @ [dq], [v], rest)))"

definition re_value_digits :: "jstring \<Rightarrow> regex" where
  "re_value_digits key s =
     (case key_eq key s of
        None \<Rightarrow> None
      | Some (k, r) \<Rightarrow>
          (case digits r of
             None \<Rightarrow> None
           | Some (v, rest) \<Rightarrow> Some (k @ v, [v], rest)))"

text \<open>\<open>/KEY\s*=\s*\{([^}]+)\}/s\<close>, used by \<open>match\<close>, and the same without the group, used by \<open>replace\<close>.\<close>

definition re_table_group :: "jstring \<Rightarrow> regex" where
  "re_table_group key s =
     (case key_eq key s of
        None \<Rightarrow> None
      | Some (k, r) \<Rightarrow>
          (case braced r of
             None \<Rightarrow> None
           | Some (v, rest) \<Rightarrow> Some (k @ js ''{'' @ v @ js ''}'', [v], rest)))"


subsection \<open>\<open>String.prototype.match\<close> and \<open>replace\<close> for a regex without the g flag\<close>

text \<open>
  The leftmost position where the pattern matches, tried from the start of the text to
  its end: the text before the match, the match, its groups, the text after it.
\<close>

fun regex_search :: "regex \<Rightarrow> jstring \<Rightarrow> jstring \<Rightarrow> (jstring \<times> jstring \<times> jstring list \<times> jstring) option" where
  "regex_search re before [] =
     (case re [] of
        None \<Rightarrow> None
      | Some (m, gs, rest) \<Rightarrow> Some (before, m, gs, rest))"
| "regex_search re before (c # cs) =
     (case re (c # cs) of
        None \<Rightarrow> regex_search re (before @ [c]) cs
      | Some (m, gs, rest) \<Rightarrow> Some (before, m, gs, rest))"

definition js_match :: "regex \<Rightarrow> jstring \<Rightarrow> (jstring \<times> jstring \<times> jstring list \<times> jstring) option" where
  "js_match re s = regex_search re [] s"

text \<open>
  The replacement text is a template (GetSubstitution of ECMAScript): \<open>$$\<close> is a dollar
  sign, \<open>$&\<close> the match, a dollar sign and a backquote the text before it, a dollar
  sign and an apostrophe the text after it, \<open>$n\<close> and
  \<open>$nn\<close> the group of that number when the pattern has one, and any other \<open>$\<close> stands
  for itself.
\<close>

fun get_substitution :: "jstring \<Rightarrow> jstring \<Rightarrow> jstring \<Rightarrow> jstring list \<Rightarrow> jstring \<Rightarrow> jstring" where
  "get_substitution m before after gs [] = []"
| "get_substitution m before after gs [c] = [c]"
| "get_substitution m before after gs (c # d # t) =
     (if c \<noteq> ch CHR ''$'' then c # get_substitution m before after gs (d # t)
      else if d = ch CHR ''$'' then ch CHR ''$'' # get_substitution m before after gs t
      else if d = ch CHR ''&'' then m @ get_substitution m before after gs t
      else if d = ch CHR 0x60 then before @ get_substitution m before after gs t
      else if d = ch CHR 0x27 then after @ get_substitution m before after gs t
      else if is_digit d then
        (case t of
           [] \<Rightarrow>
             (if 1 \<le> digit_val d \<and> digit_val d \<le> length gs
              then gs ! (digit_val d - 1)
              else [c, d])
         | e # t' \<Rightarrow>
             (if is_digit e \<and> 10 * digit_val d + digit_val e \<le> length gs
              then (if 1 \<le> 10 * digit_val d + digit_val e
                    then gs ! (10 * digit_val d + digit_val e - 1) @
                         get_substitution m before after gs t'
                    else c # d # e # get_substitution m before after gs t')
              else if 1 \<le> digit_val d \<and> digit_val d \<le> length gs
              then gs ! (digit_val d - 1) @ get_substitution m before after gs (e # t')
              else c # d # get_substitution m before after gs (e # t')))
      else c # get_substitution m before after gs (d # t))"

definition js_replace :: "regex \<Rightarrow> jstring \<Rightarrow> jstring \<Rightarrow> jstring" where
  "js_replace re template s =
     (case regex_search re [] s of
        None \<Rightarrow> s
      | Some (before, m, gs, after) \<Rightarrow>
          before @ get_substitution m before after gs template @ after)"

subsection \<open>The loader and \<open>load\<close>\<close>

text \<open>
  The singleton \<open>ConfigLoader\<close>: the cached configuration object, the text of
  \<open>config.lua\<close> as last read or written (\<open>configContent\<close>), and the file itself.
\<close>

record loader =
  cached :: config
  configContent :: jstring
  config_file :: jstring

text \<open>
  \<open>match[1]\<close> of the first match of a pattern, if there is a match. \<open>load\<close> uses it in
  two ways: through \<open>simpleMatch\<close>, after which it tests the captured text, so that an
  empty capture counts as no match; and on the match itself, where an empty capture
  is taken over.
\<close>

definition group1 :: "regex \<Rightarrow> jstring \<Rightarrow> jstring option" where
  "group1 re content =
     (case js_match re content of
        None \<Rightarrow> None
      | Some (before, m, gs, after) \<Rightarrow> Some (hd gs))"

definition simpleMatch :: "regex \<Rightarrow> jstring \<Rightarrow> jstring option" where
  "simpleMatch re content =
     (case group1 re content of
        None \<Rightarrow> None
      | Some v \<Rightarrow> if v = [] then None else Some v)"

text \<open>
  \<open>parseInt\<close> of a run of digits, which is all that reaches it here: the number the
  digits denote. (JavaScript holds it as a double, which is that number when it is
  below \<open>2^53\<close>.)
\<close>

definition parseInt :: "jstring \<Rightarrow> int" where
  "parseInt v = int (foldl (\<lambda>n c. 10 * n + digit_val c) 0 v)"

definition load_boolean :: "jstring option \<Rightarrow> bool \<Rightarrow> bool" where
  "load_boolean m old = (case m of None \<Rightarrow> old | Some v \<Rightarrow> v = js ''true'')"

definition load_text :: "jstring option \<Rightarrow> jstring \<Rightarrow> jstring" where
  "load_text m old = (case m of None \<Rightarrow> old | Some v \<Rightarrow> v)"

definition load_number :: "jstring option \<Rightarrow> int \<Rightarrow> int" where
  "load_number m old = (case m of None \<Rightarrow> old | Some v \<Rightarrow> parseInt v)"

text \<open>The tables that \<open>load\<close> reads field by field, from the body of the table.\<close>

definition load_Backup :: "jstring \<Rightarrow> backup_config \<Rightarrow> backup_config" where
  "load_Backup body b =
     \<lparr>Backup_Enabled =
        load_boolean (group1 (re_assign_boolean (js ''Enabled'')) body) (Backup_Enabled b),
      OnStartup = load_boolean (group1 (re_assign_boolean (js ''OnStartup'')) body) (OnStartup b),
      Schedule = load_number (group1 (re_value_digits (js ''Schedule'')) body) (Schedule b),
      KeepLast = load_number (group1 (re_value_digits (js ''KeepLast'')) body) (KeepLast b),
      BackupPrefix =
        load_text (group1 (re_value_quoted (js ''BackupPrefix'')) body) (BackupPrefix b)\<rparr>"

definition load_Migrations :: "jstring \<Rightarrow> migrations_config \<Rightarrow> migrations_config" where
  "load_Migrations body m =
     \<lparr>AutoApply = load_boolean (group1 (re_assign_boolean (js ''AutoApply'')) body) (AutoApply m),
      Dir = load_text (group1 (re_value_quoted (js ''Dir'')) body) (Dir m)\<rparr>"

definition load_SMTP :: "jstring \<Rightarrow> smtp_config \<Rightarrow> smtp_config" where
  "load_SMTP body m =
     \<lparr>SMTP_Enabled =
        load_boolean (group1 (re_assign_boolean (js ''Enabled'')) body) (SMTP_Enabled m),
      SMTP_Host = load_text (group1 (re_value_quoted (js ''Host'')) body) (SMTP_Host m),
      SMTP_Port = load_number (group1 (re_value_digits (js ''Port'')) body) (SMTP_Port m),
      SMTP_Username =
        load_text (group1 (re_value_quoted (js ''Username'')) body) (SMTP_Username m),
      SMTP_Password =
        load_text (group1 (re_value_quoted (js ''Password'')) body) (SMTP_Password m),
      SMTP_LocalName =
        load_text (group1 (re_value_quoted (js ''LocalName'')) body) (SMTP_LocalName m),
      SMTP_TLS = load_boolean (group1 (re_assign_boolean (js ''TLS'')) body) (SMTP_TLS m)\<rparr>"

definition load_S3 :: "jstring \<Rightarrow> s3_config \<Rightarrow> s3_config" where
  "load_S3 body m =
     \<lparr>S3_Enabled =
        load_boolean (group1 (re_assign_boolean (js ''Enabled'')) body) (S3_Enabled m),
      S3_Bucket = load_text (group1 (re_value_quoted (js ''Bucket'')) body) (S3_Bucket m),
      S3_Region = load_text (group1 (re_value_quoted (js ''Region'')) body) (S3_Region m),
      S3_Endpoint = load_text (group1 (re_value_quoted (js ''Endpoint'')) body) (S3_Endpoint m),
      S3_AccessKey =
        load_text (group1 (re_value_quoted (js ''AccessKey'')) body) (S3_AccessKey m),
      S3_SecretKey =
        load_text (group1 (re_value_quoted (js ''SecretKey'')) body) (S3_SecretKey m),
      S3_ForcePathStyle =
        load_boolean (group1 (re_assign_boolean (js ''ForcePathStyle'')) body)
          (S3_ForcePathStyle m)\<rparr>"

definition load_table :: "jstring \<Rightarrow> (jstring \<Rightarrow> 'a \<Rightarrow> 'a) \<Rightarrow> jstring \<Rightarrow> 'a \<Rightarrow> 'a" where
  "load_table key read_fields content old =
     (case group1 (re_table_group key) content of
        None \<Rightarrow> old
      | Some body \<Rightarrow> read_fields body old)"

text \<open>
  The configuration read from the text of \<open>config.lua\<close>, lines 80 to 224: the defaults,
  with each setting that one of the patterns finds in the text put in its place. Every
  pattern is applied to the whole text, or to the body of the first table of its name.
\<close>

definition parse_config :: "jstring \<Rightarrow> config" where
  "parse_config content =
     \<lparr>ExposeAdmin =
        load_boolean (simpleMatch (re_assign_boolean (js ''Config.ExposeAdmin'')) content)
          (ExposeAdmin default_config),
      Host = load_text (simpleMatch (re_value_quoted (js ''Config.Host'')) content)
               (Host default_config),
      Port = load_number (simpleMatch (re_value_digits (js ''Config.Port'')) content)
               (Port default_config),
      AutoUpdate =
        load_boolean (simpleMatch (re_assign_boolean (js ''Config.AutoUpdate'')) content)
          (AutoUpdate default_config),
      Superuser =
        \<lparr>Superuser_Email =
           load_text (simpleMatch (re_value_quoted (js ''Email'')) content)
             (Superuser_Email (Superuser default_config)),
         Superuser_Password =
           load_text (simpleMatch (re_value_quoted (js ''Password'')) content)
             (Superuser_Password (Superuser default_config))\<rparr>,
      Migrations =
        load_table (js ''Config.Migrations'') load_Migrations content (Migrations default_config),
      Backup = load_table (js ''Config.Backup'') load_Backup content (Backup default_config),
      Advanced =
        \<lparr>Dev = load_boolean (simpleMatch (re_assign_boolean (js ''Dev'')) content)
                 (Dev (Advanced default_config)),
         AutoMigrate =
           load_boolean (simpleMatch (re_assign_boolean (js ''AutoMigrate'')) content)
             (AutoMigrate (Advanced default_config)),
         PublicDir = PublicDir (Advanced default_config),
         DataDir = DataDir (Advanced default_config),
         SMTP = load_table (js ''SMTP'') load_SMTP content (SMTP (Advanced default_config)),
         S3 = load_table (js ''S3'') load_S3 content (S3 (Advanced default_config))\<rparr>\<rparr>"

text \<open>
  \<open>load\<close> on a fresh loader. The file is given by its text, \<open>None\<close> when it does not
  exist or cannot be read; the loader then keeps the defaults and an empty
  \<open>configContent\<close>.
\<close>

definition load :: "jstring option \<Rightarrow> loader" where
  "load file =
     (case file of
        None \<Rightarrow> \<lparr>cached = default_config, configContent = [], config_file = []\<rparr>
      | Some content \<Rightarrow>
          \<lparr>cached = parse_config content, configContent = content, config_file = content\<rparr>)"

subsection \<open>\<open>updateSuperuserCredentials\<close>\<close>

text \<open>\<open>fs.writeFileSync\<close> either writes the file or throws; \<open>write_ok\<close> says which.\<close>

definition updateSuperuserCredentials :: "bool \<Rightarrow> jstring \<Rightarrow> jstring \<Rightarrow> loader \<Rightarrow> bool \<times> loader" where
  "updateSuperuserCredentials write_ok email password l =
     (if configContent l = [] then (False, l)
      else
        (let u1 = js_replace (re_assign_quoted_groups (js ''Email''))
                    (js ''$1'' @ [dq] @ email @ [dq]) (configContent l);
             u2 = js_replace (re_assign_quoted_groups (js ''Password''))
                    (js ''$1'' @ [dq] @ password @ [dq]) u1
         in if \<not> write_ok then (False, l)
            else (True,
                  l\<lparr>config_file := u2,
                    cached := (cached l)\<lparr>Superuser :=
                      \<lparr>Superuser_Email = email, Superuser_Password = password\<rparr>\<rparr>,
                    configContent := u2\<rparr>)))"

subsection \<open>\<open>updateAdvancedSettings\<close>\<close>













section \<open>utils/server.js: state and environment\<close>

text \<open>The global \<open>startupStatus\<close> object.\<close>

record startup_status =
  executablePath :: jstring
  superuserEmail :: jstring
  superuserPassword :: jstring
  bindAddress :: jstring
  publicUrl :: jstring
  exposeAdmin :: bool
  healthCheckPassed :: bool
  clientAuthenticated :: "bool option"
  errors :: "jstring list"
  warnings :: "jstring list"

definition initial_status :: startup_status where
  "initial_status =
     \<lparr>executablePath = [], superuserEmail = [], superuserPassword = [], bindAddress = [],
      publicUrl = [], exposeAdmin = False, healthCheckPassed = False,
      clientAuthenticated = None, errors = [], warnings = []\<rparr>"

text \<open>
  A record of the backup list that the backend returns. PocketBase lists a backup file
  by its key, its size and the time it was last modified; \<open>modified\<close> is that time as
  a time value (milliseconds), and the size plays no part. \<open>created\<close> is the time value
  of \<open>new Date(b.created)\<close>, which is what the rotation compares: \<open>None\<close> stands for
  \<open>NaN\<close>, the value when the record has no such field or the field is not a date.
\<close>

record backup_record =
  key :: jstring
  modified :: int
  created :: "int option"

text \<open>
  What the supervisor does to the outside world is kept as a trace, in order:
  the status box it prints (with the credentials it shows, if any), the commands it
  runs through \<open>spawnWithTimeout\<close>, its calls of \<open>crypto.randomBytes\<close> and of
  \<open>configLoader.updateSuperuserCredentials\<close>, the server process it spawns, the
  events it emits, the timers it sets or clears, and its calls of the backup API.
\<close>

datatype action =
    DisplayStatus "(jstring \<times> jstring) option"
  | RunCommand jstring "jstring list" nat
  | RandomBytes nat
  | UpdateCredentials jstring jstring
  | SpawnServer jstring "jstring list"
  | SetReadyDelay nat
  | EmitServerReady jstring int bool
  | SetReadyTimeout nat
  | ClearReadyTimeout
  | DeferConfigureSettings nat
  | SetBackupInterval int
  | CreateBackup jstring
  | DeleteBackup jstring

record server =
  status :: startup_status
  configLoader :: loader
  pocketbaseProcess :: "(jstring \<times> jstring list) option"
  stored_backups :: "backup_record list"
  trace :: "action list"

text \<open>\<open>config\<close> of server.js is the object cached by the loader.\<close>

definition config_of :: "server \<Rightarrow> config" where
  "config_of s = cached (configLoader s)"

definition push_warning :: "jstring \<Rightarrow> server \<Rightarrow> server" where
  "push_warning w s = s\<lparr>status := (status s)\<lparr>warnings := warnings (status s) @ [w]\<rparr>\<rparr>"

definition push_error :: "jstring \<Rightarrow> server \<Rightarrow> server" where
  "push_error e s = s\<lparr>status := (status s)\<lparr>errors := errors (status s) @ [e]\<rparr>\<rparr>"

definition record_action :: "action \<Rightarrow> server \<Rightarrow> server" where
  "record_action a s = s\<lparr>trace := trace s @ [a]\<rparr>"

text \<open>
  Everything the supervisor asks of its surroundings is a field of the environment:
  the result of \<open>getPocketBasePath\<close> (platform and file system), the operating system
  behind \<open>spawn\<close>, the answer of the IP echo service, \<open>crypto.randomBytes(n)\<close> in
  base64, whether \<open>fs.writeFileSync\<close> succeeds, the clock, the backend's backup API
  (whether listing throws, the error with which creating throws, the keys whose
  deletion throws, the modification time it stamps), the HTTP client, the value of
  \<open>pocketbaseProcess.killed\<close> when the one-second timer comes due (\<open>kill\<close> sets it,
  and only \<open>stopPocketBase\<close> calls \<open>kill\<close>), the client's
  acknowledgment (its arrival time in milliseconds after the listener is registered,
  and its \<open>authenticated\<close> field) and the duration of the health probe.
\<close>

datatype ip_response = IpBody jstring | IpError jstring

datatype http_event = Response int | HttpError | HttpTimeout

record env =
  pb_path :: "jstring option"
  os :: os_model
  ip_lookup :: ip_response
  random_base64 :: "nat \<Rightarrow> jstring"
  write_ok :: bool
  clock :: jstring
  list_throws :: bool
  create_throws :: "jstring option"
  delete_throws :: "jstring \<Rightarrow> bool"
  create_time :: int
  http :: "jstring \<Rightarrow> nat \<Rightarrow> http_event list"
  process_killed :: bool
  client_ack :: "(nat \<times> bool) option"
  health_ms :: nat

section \<open>utils/server.js: IP detection and URL building\<close>

definition getPublicIP :: "ip_response \<Rightarrow> jstring option" where
  "getPublicIP r = (case r of IpBody d \<Rightarrow> Some (trim d) | IpError e \<Rightarrow> None)"

text \<open>\<open>\d+\.\<close> and \<open>/^\d+\.\d+\.\d+\.\d+/\<close>: the rest of the text after the match.\<close>

definition number_dot :: "jstring \<Rightarrow> jstring option" where
  "number_dot s =
     (case digits s of
        None \<Rightarrow> None
      | Some (n, r) \<Rightarrow> (case r of [] \<Rightarrow> None | c # r' \<Rightarrow> if c = ch CHR ''.'' then Some r' else None))"

definition ipv4_prefix :: "jstring \<Rightarrow> jstring option" where
  "ipv4_prefix s =
     (case number_dot s of
        None \<Rightarrow> None
      | Some r1 \<Rightarrow>
          (case number_dot r1 of
             None \<Rightarrow> None
           | Some r2 \<Rightarrow>
               (case number_dot r2 of
                  None \<Rightarrow> None
                | Some r3 \<Rightarrow> (case digits r3 of None \<Rightarrow> None | Some (n, r4) \<Rightarrow> Some r4))))"

text \<open>\<open>/^\d+\.\d+\.\d+\.\d+:\d+$/\<close> and \<open>/^\d+\.\d+\.\d+\.\d+$/\<close>.\<close>

definition is_ipv4_port :: "jstring \<Rightarrow> bool" where
  "is_ipv4_port s =
     (case ipv4_prefix s of
        None \<Rightarrow> False
      | Some r \<Rightarrow>
          (case r of
             [] \<Rightarrow> False
           | c # r' \<Rightarrow> c = ch CHR '':'' \<and> (case digits r' of None \<Rightarrow> False | Some (n, r'') \<Rightarrow> r'' = [])))"

definition is_ipv4 :: "jstring \<Rightarrow> bool" where
  "is_ipv4 s = (ipv4_prefix s = Some [])"

text \<open>
  \<open>/^[a-zA-Z0-9.-]+\.[a-zA-Z]{2,}/\<close>: some non-empty run of host characters from the
  start is followed by a dot and two letters.
\<close>

definition is_host_char :: "jchar \<Rightarrow> bool" where
  "is_host_char c \<longleftrightarrow> is_alpha c \<or> is_digit c \<or> c = ch CHR ''.'' \<or> c = ch CHR ''-''"

fun dot_tld :: "jstring \<Rightarrow> bool" where
  "dot_tld (d # a # b # r) = (d = ch CHR ''.'' \<and> is_alpha a \<and> is_alpha b)"
| "dot_tld r = False"

fun domain_prefix :: "jstring \<Rightarrow> bool" where
  "domain_prefix [] = False"
| "domain_prefix (c # cs) = (is_host_char c \<and> (dot_tld cs \<or> domain_prefix cs))"

text \<open>\<open>hostParam.replace(/^https?:\/\//, "")\<close>.\<close>

definition strip_http :: "jstring \<Rightarrow> jstring" where
  "strip_http h =
     (if prefix (js ''http://'') h then drop 7 h
      else if prefix (js ''https://'') h then drop 8 h
      else h)"

definition buildSmartUrl :: "jstring \<Rightarrow> int \<Rightarrow> jstring option" where
  "buildSmartUrl hostParam port =
     (if hostParam = [] then None
      else if startsWith hostParam (js ''http://'') \<or> startsWith hostParam (js ''https://'') then
        (if ch CHR '':'' \<in> set (strip_http hostParam) then Some hostParam
         else if ipv4_prefix (strip_http hostParam) \<noteq> None
         then Some (hostParam @ js '':'' @ show_int port)
         else Some hostParam)
      else if is_ipv4_port hostParam then Some (js ''http://'' @ hostParam)
      else if domain_prefix hostParam \<and> ipv4_prefix hostParam = None
      then Some (js ''https://'' @ hostParam)
      else if is_ipv4 hostParam then Some (js ''http://'' @ hostParam @ js '':'' @ show_int port)
      else Some (js ''http://'' @ hostParam @ js '':'' @ show_int port))"

section \<open>utils/server.js: the status box\<close>

text \<open>
  \<open>displayStartupStatus\<close> prints the box; what it changes is the warnings list, to which
  it appends while it works out the status line. The box shows the credentials only
  when \<open>superuserEmail\<close> is set.
\<close>

definition status_warnings :: "startup_status \<Rightarrow> jstring list" where
  "status_warnings st =
     (case clientAuthenticated st of
        Some False \<Rightarrow> [js ''Client failed to authenticate - check superuser credentials'']
      | Some True \<Rightarrow>
          (if exposeAdmin st \<and> \<not> healthCheckPassed st
           then [js ''Check firewall/port forwarding settings'']
           else [])
      | None \<Rightarrow> [])"

definition displayStartupStatus :: "server \<Rightarrow> server" where
  "displayStartupStatus s =
     (let st = status s;
          st' = st\<lparr>warnings := warnings st @ status_warnings st\<rparr>
      in s\<lparr>status := st',
           trace := trace s @
             [DisplayStatus (if superuserEmail st = [] then None
                             else Some (superuserEmail st, superuserPassword st))]\<rparr>)"

section \<open>utils/server.js: the health probe\<close>

text \<open>
  \<open>new URL(url)\<close> is the URL parser of the platform; it throws on a string that is not
  an absolute URL. Two of its reasons to throw are written out, after the parser has
  removed the control characters and spaces (code units up to U+0020) at both ends of
  the input: the text has no scheme (a letter, then letters, digits, \<open>+\<close>, \<open>-\<close> or
  \<open>.\<close>, then a colon), or the scheme is \<open>http\<close> or \<open>https\<close> and the host (what follows
  the slashes up to the next slash, backslash, \<open>?\<close> or \<open>#\<close>, after any \<open>@\<close> and before
  any colon) is empty or contains a space. Any other text is taken to parse; the result is
  the \<open>protocol\<close> property.
\<close>

definition is_c0_or_space :: "jchar \<Rightarrow> bool" where
  "is_c0_or_space c \<longleftrightarrow> c \<le> 0x20"

definition url_strip :: "jstring \<Rightarrow> jstring" where
  "url_strip s = rev (dropWhile is_c0_or_space (rev (dropWhile is_c0_or_space s)))"

definition is_scheme_char :: "jchar \<Rightarrow> bool" where
  "is_scheme_char c \<longleftrightarrow> is_alpha c \<or> is_digit c \<or> c \<in> set (js ''+-.'')"

definition to_lower :: "jchar \<Rightarrow> jchar" where
  "to_lower c =
     (if is_upper c
      then js ''abcdefghijklmnopqrstuvwxyz'' !
             length (takeWhile (\<lambda>d. d \<noteq> c) (js ''ABCDEFGHIJKLMNOPQRSTUVWXYZ''))
      else c)"

definition url_scheme :: "jstring \<Rightarrow> (jstring \<times> jstring) option" where
  "url_scheme s =
     (case s of
        [] \<Rightarrow> None
      | c # cs \<Rightarrow>
          if is_alpha c then
            (case dropWhile is_scheme_char s of
               [] \<Rightarrow> None
             | d # rest \<Rightarrow>
                 if d = ch CHR '':'' then Some (map to_lower (takeWhile is_scheme_char s), rest)
                 else None)
          else None)"

definition url_host :: "jstring \<Rightarrow> jstring" where
  "url_host rest =
     (let authority = takeWhile (\<lambda>c. c \<notin> set [ch CHR ''/'', ch CHR 0x5C, ch CHR ''?'', ch CHR ''#''])
                        (dropWhile (\<lambda>c. c \<in> set [ch CHR ''/'', ch CHR 0x5C]) rest);
          after_at = rev (takeWhile (\<lambda>c. c \<noteq> ch CHR ''@'') (rev authority))
      in takeWhile (\<lambda>c. c \<noteq> ch CHR '':'') after_at)"

definition new_URL :: "jstring \<Rightarrow> jstring option" where
  "new_URL url =
     (case url_scheme (url_strip url) of
        None \<Rightarrow> None
      | Some (scheme, rest) \<Rightarrow>
          if (scheme = js ''http'' \<or> scheme = js ''https'') \<and>
             (url_host rest = [] \<or> ch CHR '' '' \<in> set (url_host rest))
          then None
          else Some (scheme @ js '':''))"

text \<open>
  The request settles the promise at the first of its events: the response callback,
  \<open>error\<close> or \<open>timeout\<close>. \<open>http.get\<close> and \<open>https.get\<close> throw on a URL of another
  protocol than their own. Both throws happen inside the promise executor.
\<close>

fun first_settles :: "http_event list \<Rightarrow> bool promise" where
  "first_settles [] = Pending"
| "first_settles (Response st # evs) = Resolved (st = 200)"
| "first_settles (HttpError # evs) = Resolved False"
| "first_settles (HttpTimeout # evs) = Resolved False"

definition checkPublicUrlHealth :: "(jstring \<Rightarrow> nat \<Rightarrow> http_event list) \<Rightarrow> jstring \<Rightarrow> bool promise" where
  "checkPublicUrlHealth net url =
     (case new_URL url of
        None \<Rightarrow> Rejected (js ''ERR_INVALID_URL'')
      | Some protocol \<Rightarrow>
          if protocol \<noteq> js ''https:'' \<and> protocol \<noteq> js ''http:''
          then Rejected (js ''ERR_INVALID_PROTOCOL'')
          else first_settles (net (url @ js ''/api/health'') 5000))"

section \<open>utils/server.js: superuser, update and migrations\<close>

definition generateRandomPassword :: "env \<Rightarrow> nat \<Rightarrow> jstring" where
  "generateRandomPassword e len = take len (random_base64 e len)"

text \<open>\<open>${result.code}\<close>: the exit code, or \<open>null\<close> when the child was ended by a signal.\<close>

definition show_code :: "int option \<Rightarrow> jstring" where
  "show_code c = (case c of None \<Rightarrow> js ''null'' | Some n \<Rightarrow> show_int n)"

text \<open>
  The credentials \<open>createSuperuser\<close> works with: those of the configuration when both
  are non-empty, otherwise generated ones, with \<open>needsConfigUpdate\<close> set.
\<close>

definition hasConfigCredentials :: "config \<Rightarrow> bool" where
  "hasConfigCredentials c \<longleftrightarrow>
     Superuser_Email (Superuser c) \<noteq> [] \<and> Superuser_Password (Superuser c) \<noteq> []"

definition generated_email :: "jstring option \<Rightarrow> jstring" where
  "generated_email publicIP =
     js ''admin@'' @ (case publicIP of None \<Rightarrow> js ''localhost''
                   | Some ip \<Rightarrow> if ip = [] then js ''localhost'' else ip) @ js ''.local''"

definition saveGeneratedCredentials :: "env \<Rightarrow> jstring \<Rightarrow> jstring \<Rightarrow> server \<Rightarrow> server" where
  "saveGeneratedCredentials e email password s =
     (let (updated, l) = updateSuperuserCredentials (write_ok e) email password (configLoader s);
          s1 = record_action (UpdateCredentials email password) (s\<lparr>configLoader := l\<rparr>);
          s2 = (if updated then s1
                else push_warning (js ''Failed to save credentials to config.lua'') s1)
      in s2\<lparr>status := (status s2)\<lparr>superuserEmail := email, superuserPassword := password\<rparr>\<rparr>)"

definition upsertSuperuser ::
  "env \<Rightarrow> jstring \<Rightarrow> jstring \<Rightarrow> jstring \<Rightarrow> bool \<Rightarrow> server \<Rightarrow> bool promise \<times> server" where
  "upsertSuperuser e pbPath email password needsConfigUpdate s =
     (let args = [js ''superuser'', js ''upsert'', email, password, js ''--dir'',
                  DataDir (Advanced (config_of s))]
      in await (spawnWithTimeout (os e) pbPath args 5000,
                record_action (RunCommand pbPath args 5000) s)
           (\<lambda>result s1.
              if code result = Some 0 \<or>
                 str_includes (stdout result) (js ''Successfully saved superuser'')
              then (Resolved True,
                    if needsConfigUpdate then saveGeneratedCredentials e email password s1
                    else s1)
              else (Resolved False,
                    push_error (js ''Failed to configure superuser (code '' @
                                show_code (code result) @ js '')'') s1)))"

definition createSuperuser :: "env \<Rightarrow> jstring \<Rightarrow> jstring option \<Rightarrow> server \<Rightarrow> bool promise \<times> server" where
  "createSuperuser e pbPath publicIP s =
     (if hasConfigCredentials (config_of s)
      then upsertSuperuser e pbPath
             (Superuser_Email (Superuser (config_of s)))
             (Superuser_Password (Superuser (config_of s))) False s
      else upsertSuperuser e pbPath (generated_email publicIP) (generateRandomPassword e 20) True
             (record_action (RandomBytes 20) s))"

definition checkAndUpdate :: "env \<Rightarrow> jstring \<Rightarrow> server \<Rightarrow> bool promise \<times> server" where
  "checkAndUpdate e pbPath s =
     (if \<not> AutoUpdate (config_of s) then (Resolved True, s)
      else await (spawnWithTimeout (os e) pbPath [js ''update''] 30000,
                  record_action (RunCommand pbPath [js ''update''] 30000) s)
             (\<lambda>result s1.
                (Resolved True,
                 if code result \<noteq> Some 0
                 then push_warning (js ''Update check failed, using current version'') s1
                 else s1)))"

text \<open>
  \<open>applyPendingMigrations\<close>: the call is inside \<open>try\<close>, so a rejection becomes a warning.
  The line it logs after a successful run changes nothing and is left out.
\<close>

definition applyPendingMigrations :: "env \<Rightarrow> jstring \<Rightarrow> server \<Rightarrow> unit promise \<times> server" where
  "applyPendingMigrations e pbPath s =
     (if \<not> AutoApply (Migrations (config_of s)) then (Resolved (), s)
      else
        (let args = [js ''migrate'', js ''up'', js ''--dir'', DataDir (Advanced (config_of s))];
             s1 = record_action (RunCommand pbPath args 30000) s
         in case spawnWithTimeout (os e) pbPath args 30000 of
              Pending \<Rightarrow> (Pending, s1)
            | Rejected msg \<Rightarrow> (Resolved (), push_warning (js ''Migration error: '' @ msg) s1)
            | Resolved result \<Rightarrow>
                if code result = Some 0 then (Resolved (), s1)
                else if str_includes (stderr result) (js ''no migration'') \<or>
                        str_includes (stdout result) (js ''No migrations'')
                then (Resolved (), s1)
                else (Resolved (),
                      push_warning
                        (js ''Failed to apply migrations - check pb_migrations directory'') s1)))"

section \<open>utils/server.js: configuration validation\<close>

definition validation_errors :: "config \<Rightarrow> jstring list" where
  "validation_errors c =
     (if Port c < 1 \<or> Port c > 65535
      then [js ''Invalid port: '' @ show_int (Port c) @ js '' (must be 1-65535)''] else []) @
     (if Superuser_Email (Superuser c) \<noteq> [] \<and> ch CHR ''@'' \<notin> set (Superuser_Email (Superuser c))
      then [js ''Invalid superuser email format: '' @ Superuser_Email (Superuser c)] else []) @
     (if SMTP_Enabled (SMTP (Advanced c)) then
        (if SMTP_Host (SMTP (Advanced c)) = [] then [js ''SMTP enabled but Host is empty''] else []) @
        (if SMTP_Port (SMTP (Advanced c)) = 0 \<or> SMTP_Port (SMTP (Advanced c)) < 1
         then [js ''SMTP enabled but Port is invalid''] else [])
      else []) @
     (if S3_Enabled (S3 (Advanced c)) then
        (if S3_Bucket (S3 (Advanced c)) = [] then [js ''S3 enabled but Bucket is empty''] else []) @
        (if S3_Region (S3 (Advanced c)) = [] then [js ''S3 enabled but Region is empty''] else [])
      else []) @
     (if Backup_Enabled (Backup c) then
        (if KeepLast (Backup c) < 0 then [js ''Backup.KeepLast must be >= 0''] else []) @
        (if Schedule (Backup c) < 0 then [js ''Backup.Schedule must be >= 0''] else [])
      else [])"

definition validateConfig :: "server \<Rightarrow> bool \<times> server" where
  "validateConfig s =
     (let errs = validation_errors (config_of s)
      in if errs \<noteq> []
         then (False, s\<lparr>status := (status s)\<lparr>errors := errors (status s) @ errs\<rparr>\<rparr>)
         else (True, s))"

section \<open>utils/server.js: the backup service\<close>

text \<open>
  The three wrappers catch what the backup API throws. The API itself belongs to the
  backend: creating adds a file under the given name, which the list then shows with
  its key and modification time and without a \<open>created\<close> field, deleting removes the
  record of the given key, and each call may throw instead, as the environment says.
\<close>

definition createBackup :: "env \<Rightarrow> jstring \<Rightarrow> server \<Rightarrow> bool \<times> server" where
  "createBackup e basename s =
     (case create_throws e of
        Some msg \<Rightarrow>
          (False, push_warning (js ''Backup creation failed: '' @ msg)
                    (record_action (CreateBackup basename) s))
      | None \<Rightarrow>
          (True, record_action (CreateBackup basename)
                   (s\<lparr>stored_backups := stored_backups s @
                        [\<lparr>key = basename, modified = create_time e, created = None\<rparr>]\<rparr>)))"

definition listBackups :: "env \<Rightarrow> server \<Rightarrow> backup_record list" where
  "listBackups e s = (if list_throws e then [] else stored_backups s)"

definition deleteBackup :: "env \<Rightarrow> jstring \<Rightarrow> server \<Rightarrow> bool \<times> server" where
  "deleteBackup e k s =
     (if delete_throws e k then (False, record_action (DeleteBackup k) s)
      else (True, record_action (DeleteBackup k)
                    (s\<lparr>stored_backups := filter (\<lambda>b. key b \<noteq> k) (stored_backups s)\<rparr>)))"

text \<open>
  \<open>Array.prototype.sort\<close> with a comparator. The comparator's result is a number or
  \<open>NaN\<close> (\<open>None\<close>), and the sort takes \<open>NaN\<close> as \<open>+0\<close>. The sort is stable. When the
  comparator is a consistent ordering the result is the one stable arrangement in that
  order, which an insertion from the right computes; when it is not, the arrangement
  is up to the implementation, and the one written here is again that of the
  insertion. Of the comparators of \<open>manageBackupRotation\<close> the two cases looked at
  below are consistent: every record has a date, or none has.
\<close>

definition sort_compare :: "('a \<Rightarrow> 'a \<Rightarrow> int option) \<Rightarrow> 'a \<Rightarrow> 'a \<Rightarrow> int" where
  "sort_compare comparefn x y = (case comparefn x y of None \<Rightarrow> 0 | Some v \<Rightarrow> v)"

fun insert_sorted :: "('a \<Rightarrow> 'a \<Rightarrow> int option) \<Rightarrow> 'a \<Rightarrow> 'a list \<Rightarrow> 'a list" where
  "insert_sorted comparefn x [] = [x]"
| "insert_sorted comparefn x (y # ys) =
     (if sort_compare comparefn x y \<le> 0 then x # y # ys
      else y # insert_sorted comparefn x ys)"

definition sort_array :: "('a \<Rightarrow> 'a \<Rightarrow> int option) \<Rightarrow> 'a list \<Rightarrow> 'a list" where
  "sort_array comparefn xs = foldr (insert_sorted comparefn) xs []"

text \<open>
  \<open>(a, b) => new Date(b.created) - new Date(a.created)\<close>: the difference of the two
  time values, \<open>NaN\<close> when either is \<open>NaN\<close>.
\<close>

definition by_created :: "backup_record \<Rightarrow> backup_record \<Rightarrow> int option" where
  "by_created a b =
     (case created b of
        None \<Rightarrow> None
      | Some tb \<Rightarrow> (case created a of None \<Rightarrow> None | Some ta \<Rightarrow> Some (tb - ta)))"

text \<open>\<open>autoBackups\<close> and \<open>toDelete\<close> of \<open>manageBackupRotation\<close>.\<close>

definition autoBackups :: "jstring \<Rightarrow> backup_record list \<Rightarrow> backup_record list" where
  "autoBackups pre bs = sort_array by_created (filter (\<lambda>b. startsWith (key b) pre) bs)"

definition toDelete :: "config \<Rightarrow> backup_record list \<Rightarrow> backup_record list" where
  "toDelete c bs = drop (nat (KeepLast (Backup c))) (autoBackups (BackupPrefix (Backup c)) bs)"

definition manageBackupRotation :: "env \<Rightarrow> server \<Rightarrow> server" where
  "manageBackupRotation e s =
     (if \<not> Backup_Enabled (Backup (config_of s)) \<or> KeepLast (Backup (config_of s)) \<le> 0 then s
      else if int (length (listBackups e s)) \<le> KeepLast (Backup (config_of s)) then s
      else foldl (\<lambda>s' b. snd (deleteBackup e (key b) s')) s
             (toDelete (config_of s) (listBackups e s)))"

text \<open>\<open>new Date().toISOString().replace(/[:.]/g, "-").slice(0, -5)\<close>.\<close>

definition backup_timestamp :: "jstring \<Rightarrow> jstring" where
  "backup_timestamp stamp =
     (let t = map (\<lambda>c. if c = ch CHR '':'' \<or> c = ch CHR ''.'' then ch CHR ''-'' else c) stamp
      in take (length t - 5) t)"

definition performStartupBackup :: "env \<Rightarrow> server \<Rightarrow> server" where
  "performStartupBackup e s =
     (if \<not> Backup_Enabled (Backup (config_of s)) \<or> \<not> OnStartup (Backup (config_of s)) then s
      else
        (let basename = BackupPrefix (Backup (config_of s)) @ js ''startup_'' @
                        backup_timestamp (clock e);
             (result, s1) = createBackup e basename s
         in if result then manageBackupRotation e s1 else s1))"

definition scheduleBackups :: "server \<Rightarrow> server" where
  "scheduleBackups s =
     (if \<not> Backup_Enabled (Backup (config_of s)) \<or> Schedule (Backup (config_of s)) \<le> 0 then s
      else record_action (SetBackupInterval (Schedule (Backup (config_of s)) * 1000)) s)"

section \<open>utils/server.js: startPocketBase\<close>

text \<open>
  The bind address and the public URL, lines 719 to 750: the two strings, the detected
  IP handed on to \<open>createSuperuser\<close>, and the state with \<open>startupStatus\<close> updated.
\<close>

definition set_binding :: "jstring \<Rightarrow> jstring \<Rightarrow> server \<Rightarrow> server" where
  "set_binding bind url s = s\<lparr>status := (status s)\<lparr>bindAddress := bind, publicUrl := url\<rparr>\<rparr>"

definition resolveBinding :: "env \<Rightarrow> server \<Rightarrow> jstring option \<times> server" where
  "resolveBinding e s =
     (let c = config_of s;
          s0 = s\<lparr>status := (status s)\<lparr>exposeAdmin := ExposeAdmin c\<rparr>\<rparr>
      in if ExposeAdmin c then
           (if Host c = [] then
              (let publicIP = getPublicIP (ip_lookup e)
               in if publicIP = None \<or> publicIP = Some [] then
                    (publicIP,
                     set_binding (js ''0.0.0.0:'' @ show_int (Port c))
                       (js ''http://0.0.0.0:'' @ show_int (Port c))
                       (push_warning
                          (js ''Could not detect public IP - configure Config.Host manually'') s0))
                  else
                    (publicIP,
                     set_binding (js ''0.0.0.0:'' @ show_int (Port c))
                       (js ''http://'' @ (case publicIP of None \<Rightarrow> [] | Some ip \<Rightarrow> ip) @ js '':'' @
                        show_int (Port c)) s0))
            else
              (None,
               set_binding (js ''0.0.0.0:'' @ show_int (Port c))
                 (case buildSmartUrl (Host c) (Port c) of None \<Rightarrow> js ''null'' | Some u \<Rightarrow> u) s0))
         else
           (None,
            set_binding (js ''127.0.0.1:'' @ show_int (Port c))
              (js ''http://localhost:'' @ show_int (Port c)) s0))"

definition serve_args :: "server \<Rightarrow> jstring list" where
  "serve_args s =
     [js ''serve'',
      js ''--http='' @ bindAddress (status s),
      js ''--dir='' @ DataDir (Advanced (config_of s)),
      js ''--publicDir='' @ PublicDir (Advanced (config_of s))] @
     (if Dev (Advanced (config_of s)) then [js ''--dev''] else []) @
     (if \<not> AutoMigrate (Advanced (config_of s)) then [js ''--automigrate=false''] else [])"

text \<open>
  Lines 765 to 887: the server process is spawned and the callback of the one-second
  timer is registered. The handlers of the process's output only log.
\<close>

definition spawnServer :: "env \<Rightarrow> jstring \<Rightarrow> server \<Rightarrow> unit promise \<times> server" where
  "spawnServer e pbPath s =
     (case spawn (os e) pbPath (serve_args s) of
        SpawnThrows msg \<Rightarrow> (Rejected msg, s)
      | Child evs \<Rightarrow>
          (Resolved (),
           record_action (SetReadyDelay 1000)
             (record_action (SpawnServer pbPath (serve_args s))
                (s\<lparr>pocketbaseProcess := Some (pbPath, serve_args s)\<rparr>))))"

definition startPocketBase :: "env \<Rightarrow> server \<Rightarrow> unit promise \<times> server" where
  "startPocketBase e s =
     (case validateConfig s of
        (False, s1) \<Rightarrow> (Resolved (), displayStartupStatus s1)
      | (True, s1) \<Rightarrow>
          (case pb_path e of
             None \<Rightarrow>
               (Resolved (),
                displayStartupStatus (push_error (js ''PocketBase executable not found'') s1))
           | Some pbPath \<Rightarrow>
               await (checkAndUpdate e pbPath
                        (s1\<lparr>status := (status s1)\<lparr>executablePath := pbPath\<rparr>\<rparr>))
                 (\<lambda>_ s2.
                    case resolveBinding e s2 of
                      (publicIP, s3) \<Rightarrow>
                        await (createSuperuser e pbPath publicIP s3)
                          (\<lambda>superuserSuccess s4.
                             if \<not> superuserSuccess then (Resolved (), displayStartupStatus s4)
                             else
                               await (applyPendingMigrations e pbPath s4)
                                 (\<lambda>_ s5. spawnServer e pbPath (performStartupBackup e s5))))))"

section \<open>utils/server.js: the readiness handshake\<close>

text \<open>
  The callback of the one-second timer, lines 845 to 886. The promise
  \<open>clientReadyPromise\<close> is resolved by whichever runs first, the handler of
  \<open>pocketbase:client:ready\<close> or the callback of the 3000 ms timer; the acknowledgment
  comes first exactly when it arrives before the timer is due. The listener stays
  registered, so an acknowledgment that arrives later, while the health probe is still
  awaited, overwrites \<open>clientAuthenticated\<close> before the status box is printed.
\<close>

definition onClientReady :: "bool \<Rightarrow> server \<Rightarrow> server" where
  "onClientReady authenticated s =
     (record_action ClearReadyTimeout s)
       \<lparr>status := (status s)\<lparr>clientAuthenticated := Some authenticated\<rparr>\<rparr>"

definition onReadyTimeout :: "server \<Rightarrow> server" where
  "onReadyTimeout s = s\<lparr>status := (status s)\<lparr>clientAuthenticated := Some False\<rparr>\<rparr>"

definition awaitClientReady :: "(nat \<times> bool) option \<Rightarrow> server \<Rightarrow> server" where
  "awaitClientReady ack s =
     (case ack of
        None \<Rightarrow> onReadyTimeout s
      | Some (t, b) \<Rightarrow> if t < 3000 then onClientReady b s else onReadyTimeout s)"

definition lateClientReady :: "(nat \<times> bool) option \<Rightarrow> nat \<Rightarrow> server \<Rightarrow> server" where
  "lateClientReady ack probe_ms s =
     (case ack of
        None \<Rightarrow> s
      | Some (t, b) \<Rightarrow> if 3000 \<le> t \<and> t < 3000 + probe_ms then onClientReady b s else s)"

definition afterHandshake :: "server \<Rightarrow> server" where
  "afterHandshake s =
     scheduleBackups (record_action (DeferConfigureSettings 2000) (displayStartupStatus s))"

definition waiting_for_client :: "server \<Rightarrow> server" where
  "waiting_for_client s =
     record_action (SetReadyTimeout 3000)
       (record_action
          (EmitServerReady (publicUrl (status s)) (Port (config_of s))
             (ExposeAdmin (config_of s))) s)"

definition serverReadyCallback :: "env \<Rightarrow> server \<Rightarrow> unit promise \<times> server" where
  "serverReadyCallback e s =
     (if pocketbaseProcess s = None \<or> process_killed e then (Resolved (), s)
      else
        (let s2 = awaitClientReady (client_ack e) (waiting_for_client s)
         in if ExposeAdmin (config_of s) then
              await (checkPublicUrlHealth (http e) (publicUrl (status s)),
                     lateClientReady (client_ack e) (health_ms e) s2)
                (\<lambda>healthy s3.
                   (Resolved (),
                    afterHandshake (s3\<lparr>status := (status s3)\<lparr>healthCheckPassed := healthy\<rparr>\<rparr>)))
            else (Resolved (), afterHandshake s2)))"

section \<open>Outcomes and scenarios referred to by the properties\<close>

text \<open>
  What the start sequence does after a failed validation, for the error \<open>x\<close>: validation
  returns false, \<open>x\<close> is in the error list, \<open>startPocketBase\<close> returns, the process handle
  is the one it started with, and the only thing done is printing the status box.
\<close>

definition rejected_before_spawn :: "env \<Rightarrow> server \<Rightarrow> jstring \<Rightarrow> bool" where
  "rejected_before_spawn e s x \<longleftrightarrow>
     \<not> fst (validateConfig s) \<and>
     fst (startPocketBase e s) = Resolved () \<and>
     x \<in> set (errors (status (snd (startPocketBase e s)))) \<and>
     pocketbaseProcess (snd (startPocketBase e s)) = pocketbaseProcess s \<and>
     trace (snd (startPocketBase e s)) =
       trace s @ [DisplayStatus (if superuserEmail (status s) = [] then None
                  else Some (superuserEmail (status s), superuserPassword (status s)))]"

text \<open>A configuration and surroundings in which nothing fails, used to run the sequence.\<close>

definition calm_env :: env where
  "calm_env =
     \<lparr>pb_path = Some (js ''/srv/pocketbase/bin/pocketbase-linux''),
      os = (\<lambda>command args. Child [StdoutData (js ''Successfully saved superuser''), CloseEv (Some 0)]),
      ip_lookup = IpBody (js ''203.0.113.7''),
      random_base64 = (\<lambda>n. js ''q83vEjRWeJCrze8SNFZ4kKvN7xI=''),
      write_ok = True,
      clock = js ''2025-01-01T00:00:00.000Z'',
      list_throws = False,
      create_throws = None,
      delete_throws = (\<lambda>k. False),
      create_time = 1735689600000,
      http = (\<lambda>url ms. [Response 200]),
      process_killed = False,
      client_ack = Some (250, True),
      health_ms = 40\<rparr>"

definition server_with :: "config \<Rightarrow> server" where
  "server_with c =
     \<lparr>status = initial_status,
      configLoader = \<lparr>cached = c, configContent = [], config_file = []\<rparr>,
      pocketbaseProcess = None,
      stored_backups = [],
      trace = []\<rparr>"

text \<open>
  The state in which \<open>server.js\<close> calls \<open>startPocketBase\<close>, lines 35 to 55 and 697: the
  initial \<open>startupStatus\<close>, the configuration loaded from \<open>config.lua\<close>, no server
  process; the backend holds no backup.
\<close>

definition initial_server :: "jstring option \<Rightarrow> server" where
  "initial_server file =
     \<lparr>status = initial_status,
      configLoader = load file,
      pocketbaseProcess = None,
      stored_backups = [],
      trace = []\<rparr>"

text \<open>
  Four files \<open>config.lua\<close>, each with one setting of the shipped file changed and the
  rest left out:
  \<^verbatim>\<open>Config.Port = 0\<close>,
  \<^verbatim>\<open>Config.Port = 70000\<close>,
  a backup table with \<open>KeepLast = -1\<close>,
  \<^verbatim>\<open>
  Config.Backup = {
      Enabled = true,
      KeepLast = -1,
  }
  \<close>
  and an SMTP table that is enabled and has an empty host:
  \<^verbatim>\<open>
  Config.Advanced = {
      SMTP = {
          Enabled = true,
          Host = "",
      },
  }
  \<close>
\<close>

definition port_zero_lua :: jstring where
  "port_zero_lua = js ''Config.Port = 0'' @ [ch CHR 0x0A]"

definition port_70000_lua :: jstring where
  "port_70000_lua = js ''Config.Port = 70000'' @ [ch CHR 0x0A]"

definition negative_KeepLast_lua :: jstring where
  "negative_KeepLast_lua =
     js ''Config.Backup = {'' @ [ch CHR 0x0A] @ js ''    Enabled = true,'' @ [ch CHR 0x0A] @
     js ''    KeepLast = -1,'' @ [ch CHR 0x0A] @ js ''}'' @ [ch CHR 0x0A]"

definition smtp_no_host_lua :: jstring where
  "smtp_no_host_lua =
     js ''Config.Advanced = {'' @ [ch CHR 0x0A] @ js ''    SMTP = {'' @ [ch CHR 0x0A] @
     js ''        Enabled = true,'' @ [ch CHR 0x0A] @ js ''        Host = '' @ [dq, dq] @
     js '','' @ [ch CHR 0x0A] @ js ''    },'' @ [ch CHR 0x0A] @ js ''}'' @ [ch CHR 0x0A]"

text \<open>
  The resolved binding as \<open>startupStatus\<close> holds it: the bind address, the public URL,
  and warnings that are in the warnings list.
\<close>

definition resolved_as :: "jstring \<Rightarrow> jstring \<Rightarrow> jstring list \<Rightarrow> server \<Rightarrow> bool" where
  "resolved_as bind url ws s \<longleftrightarrow>
     bindAddress (status s) = bind \<and> publicUrl (status s) = url \<and>
     list_all (\<lambda>w. w \<in> set (warnings (status s))) ws"

text \<open>
  The start sequence gets as far as resolving the binding: the configuration is
  valid, the executable \<open>p\<close> is found, and the update check, when enabled, settles.
\<close>

definition reaches_binding :: "env \<Rightarrow> server \<Rightarrow> bool" where
  "reaches_binding e s \<longleftrightarrow>
     validation_errors (config_of s) = [] \<and>
     (case pb_path e of
        None \<Rightarrow> False
      | Some p \<Rightarrow>
          \<not> AutoUpdate (config_of s) \<or>
          (case spawnWithTimeout (os e) p [js ''update''] 30000 of
             Resolved r \<Rightarrow> True | Rejected x \<Rightarrow> False | Pending \<Rightarrow> False))"






text \<open>
  An invocation of \<open>createSuperuser\<close> that only reuses the credentials of the
  configuration: the loader and the two display fields are as before, and the one
  thing done is the upsert command with the configured email and password.
\<close>

definition reuses_credentials :: "env \<Rightarrow> jstring \<Rightarrow> jstring option \<Rightarrow> server \<Rightarrow> bool" where
  "reuses_credentials e p ip s \<longleftrightarrow>
     configLoader (snd (createSuperuser e p ip s)) = configLoader s \<and>
     superuserEmail (status (snd (createSuperuser e p ip s))) = superuserEmail (status s) \<and>
     superuserPassword (status (snd (createSuperuser e p ip s))) =
       superuserPassword (status s) \<and>
     trace (snd (createSuperuser e p ip s)) =
       trace s @ [RunCommand p [js ''superuser'', js ''upsert'',
                    Superuser_Email (Superuser (config_of s)),
                    Superuser_Password (Superuser (config_of s)), js ''--dir'',
                    DataDir (Advanced (config_of s))] 5000]"

text \<open>
  A configuration document in the layout of the shipped \<open>config.lua\<close>, cut down to the
  tables the rewrites touch:
  \<^verbatim>\<open>
  Config.Superuser = {
      Email = "",
      Password = "",
  }
  Config.Advanced = {
      SMTP = {
          Enabled = false,
          Host = "smtp.gmail.com",
          Port = 587,
          Password = "",
          TLS = true,
      },
      S3 = {
          Enabled = false,
          Bucket = "",
          ForcePathStyle = false,
      },
  }
  \<close>
\<close>

definition sample_document :: jstring where
  "sample_document =
     js ''Config.Superuser = {'' @ [ch CHR 0x0A] @ js ''    Email = '' @ [dq, dq] @ js '','' @
     [ch CHR 0x0A] @ js ''    Password = '' @ [dq, dq] @ js '','' @ [ch CHR 0x0A] @ js ''}'' @
     [ch CHR 0x0A] @ js ''Config.Advanced = {'' @ [ch CHR 0x0A] @ js ''    SMTP = {'' @ [ch CHR 0x0A] @
     js ''        Enabled = false,'' @ [ch CHR 0x0A] @ js ''        Host = '' @ [dq] @
     js ''smtp.gmail.com'' @ [dq] @ js '','' @ [ch CHR 0x0A] @ js ''        Port = 587,'' @
     [ch CHR 0x0A] @ js ''        Password = '' @ [dq, dq] @ js '','' @ [ch CHR 0x0A] @
     js ''        TLS = true,'' @ [ch CHR 0x0A] @ js ''    },'' @ [ch CHR 0x0A] @ js ''    S3 = {'' @
     [ch CHR 0x0A] @ js ''        Enabled = false,'' @ [ch CHR 0x0A] @ js ''        Bucket = '' @
     [dq, dq] @ js '','' @ [ch CHR 0x0A] @ js ''        ForcePathStyle = false,'' @ [ch CHR 0x0A] @
     js ''    },'' @ [ch CHR 0x0A] @ js ''}'' @ [ch CHR 0x0A]"

definition server_with_document :: "config \<Rightarrow> jstring \<Rightarrow> server" where
  "server_with_document c doc =
     \<lparr>status = initial_status,
      configLoader = \<lparr>cached = c, configContent = doc, config_file = doc\<rparr>,
      pocketbaseProcess = None,
      stored_backups = [],
      trace = []\<rparr>"

text \<open>A record whose key starts with the configured automatic-backup prefix.\<close>

definition auto_prefixed :: "config \<Rightarrow> backup_record \<Rightarrow> bool" where
  "auto_prefixed c b \<longleftrightarrow> startsWith (key b) (BackupPrefix (Backup c))"

text \<open>
  A backend that holds three automatic backups, made on three days, and one made by
  hand, as its list returns them: by key, and without a \<open>created\<close> field. The supervisor
  keeps the last two automatic backups.
\<close>

definition listed_backups :: "backup_record list" where
  "listed_backups =
     [\<lparr>key = js ''auto_scheduled_2025-01-01T00-00-00'', modified = 1735689600000, created = None\<rparr>,
      \<lparr>key = js ''auto_scheduled_2025-01-02T00-00-00'', modified = 1735776000000, created = None\<rparr>,
      \<lparr>key = js ''auto_scheduled_2025-01-03T00-00-00'', modified = 1735862400000, created = None\<rparr>,
      \<lparr>key = js ''before_upgrade'', modified = 1735000000000, created = None\<rparr>]"

definition rotating_server :: server where
  "rotating_server =
     (server_with (default_config\<lparr>Backup := (Backup default_config)
        \<lparr>Backup_Enabled := True, KeepLast := 2\<rparr>\<rparr>))\<lparr>stored_backups := listed_backups\<rparr>"

definition rotated :: server where
  "rotated = manageBackupRotation calm_env rotating_server"

























section \<open>Code units and literals\<close>

lemma unat_ch: "unat (ch c) = of_char c"
proof -
  have "(of_char c :: nat) < 65536"
    using nat_of_char_less_256[of c] by arith
  then have small: "(of_char c :: nat) < 2 ^ LENGTH(16)" by simp
  have "ch c = of_nat (of_char c)"
    unfolding ch_def by (simp only: of_nat_of_char)
  then have "unat (ch c) = unat (of_nat (of_char c) :: 16 word)" by simp
  also have "\<dots> = of_char c"
    using small by (simp add: unat_of_nat)
  finally show ?thesis .
qed

lemma ch_eq_iff [simp]: "ch a = ch b \<longleftrightarrow> a = b"
proof
  assume "ch a = ch b"
  then have "unat (ch a) = unat (ch b)" by simp
  then show "a = b" by (simp add: unat_ch)
qed simp

lemma ch_not_wide [simp]: "ch c \<notin> set wide_space"
proof
  assume "ch c \<in> set wide_space"
  then have "256 \<le> unat (ch c)"
    by (auto simp: wide_space_def)
  moreover have "(of_char c :: nat) < 256" by (rule nat_of_char_less_256)
  ultimately show False by (simp add: unat_ch)
qed

lemma js_simps [simp]:
  "js [] = []"
  "js (c # cs) = ch c # js cs"
  "js (s @ t) = js s @ js t"
  "length (js s) = length s"
  by (simp_all add: js_def)

lemma js_eq_iff [simp]: "js s = js t \<longleftrightarrow> s = t"
  by (auto simp: js_def inj_on_def list.inj_map_strong)

lemma js_nth: "n < length s \<Longrightarrow> js s ! n = ch (s ! n)"
  by (simp add: js_def)

lemma is_space_ch:
  "is_space (ch c) \<longleftrightarrow>
     c \<in> set [CHR 0x09, CHR 0x0A, CHR 0x0B, CHR 0x0C, CHR 0x0D, CHR '' '', CHR 0xA0]"
  by (simp add: is_space_def)

lemma is_digit_ch: "is_digit (ch c) \<longleftrightarrow> c \<in> set ''0123456789''"
  by (simp add: is_digit_def)




lemma is_c0_or_space_ch: "is_c0_or_space (ch c) \<longleftrightarrow> (of_char c :: nat) \<le> 32"
  by (simp add: is_c0_or_space_def word_le_nat_alt unat_ch)

section \<open>Unfolding the model on concrete inputs\<close>

named_theorems run_defs

declare
  await_def [run_defs] Let_def [run_defs] config_of_def [run_defs]
  default_config_def [run_defs] initial_status_def [run_defs]
  spawn_def [run_defs] spawnWithTimeout_def [run_defs] child_run_def [run_defs]
  spawn_start_def [run_defs] resolve_once_def [run_defs]
  updateSuperuserCredentials_def [run_defs]
  push_warning_def [run_defs] push_error_def [run_defs] record_action_def [run_defs]
  getPublicIP_def [run_defs] displayStartupStatus_def [run_defs] status_warnings_def [run_defs]
  generateRandomPassword_def [run_defs] show_code_def [run_defs]
  hasConfigCredentials_def [run_defs] generated_email_def [run_defs]
  saveGeneratedCredentials_def [run_defs] upsertSuperuser_def [run_defs]
  createSuperuser_def [run_defs] checkAndUpdate_def [run_defs]
  applyPendingMigrations_def [run_defs] validation_errors_def [run_defs]
  validateConfig_def [run_defs] createBackup_def [run_defs] listBackups_def [run_defs]
  deleteBackup_def [run_defs] autoBackups_def [run_defs] toDelete_def [run_defs]
  manageBackupRotation_def [run_defs] backup_timestamp_def [run_defs]
  performStartupBackup_def [run_defs] scheduleBackups_def [run_defs]
  set_binding_def [run_defs] resolveBinding_def [run_defs] serve_args_def [run_defs]
  spawnServer_def [run_defs] startPocketBase_def [run_defs]
  onClientReady_def [run_defs] onReadyTimeout_def [run_defs] awaitClientReady_def [run_defs]
  lateClientReady_def [run_defs] afterHandshake_def [run_defs]
  serverReadyCallback_def [run_defs] waiting_for_client_def [run_defs] calm_env_def [run_defs] server_with_def [run_defs]


section \<open>Basic facts about the state\<close>

lemma record_action_simps [simp]:
  "status (record_action a s) = status s"
  "configLoader (record_action a s) = configLoader s"
  "pocketbaseProcess (record_action a s) = pocketbaseProcess s"
  "stored_backups (record_action a s) = stored_backups s"
  "trace (record_action a s) = trace s @ [a]"
  "config_of (record_action a s) = config_of s"
  by (simp_all add: record_action_def config_of_def)

lemma push_warning_simps [simp]:
  "status (push_warning w s) = (status s)\<lparr>warnings := warnings (status s) @ [w]\<rparr>"
  "configLoader (push_warning w s) = configLoader s"
  "pocketbaseProcess (push_warning w s) = pocketbaseProcess s"
  "stored_backups (push_warning w s) = stored_backups s"
  "trace (push_warning w s) = trace s"
  "config_of (push_warning w s) = config_of s"
  by (simp_all add: push_warning_def config_of_def)

lemma push_error_simps [simp]:
  "status (push_error x s) = (status s)\<lparr>errors := errors (status s) @ [x]\<rparr>"
  "configLoader (push_error x s) = configLoader s"
  "pocketbaseProcess (push_error x s) = pocketbaseProcess s"
  "stored_backups (push_error x s) = stored_backups s"
  "trace (push_error x s) = trace s"
  "config_of (push_error x s) = config_of s"
  by (simp_all add: push_error_def config_of_def)

lemma displayStartupStatus_simps [simp]:
  "configLoader (displayStartupStatus s) = configLoader s"
  "pocketbaseProcess (displayStartupStatus s) = pocketbaseProcess s"
  "stored_backups (displayStartupStatus s) = stored_backups s"
  "config_of (displayStartupStatus s) = config_of s"
  "errors (status (displayStartupStatus s)) = errors (status s)"
  "bindAddress (status (displayStartupStatus s)) = bindAddress (status s)"
  "publicUrl (status (displayStartupStatus s)) = publicUrl (status s)"
  "clientAuthenticated (status (displayStartupStatus s)) = clientAuthenticated (status s)"
  "superuserEmail (status (displayStartupStatus s)) = superuserEmail (status s)"
  "superuserPassword (status (displayStartupStatus s)) = superuserPassword (status s)"
  "trace (displayStartupStatus s) =
     trace s @ [DisplayStatus (if superuserEmail (status s) = [] then None
                               else Some (superuserEmail (status s), superuserPassword (status s)))]"
  by (simp_all add: displayStartupStatus_def config_of_def Let_def)

lemma show_nat_digit: "n < 10 \<Longrightarrow> show_nat n = [js ''0123456789'' ! n]"
  by (subst show_nat.simps) simp

lemma show_int_0: "show_int 0 = js ''0''"
  by (simp add: show_int_def show_nat_digit)

lemma show_int_70000: "show_int 70000 = js ''70000''"
  by (simp add: show_int_def show_nat.simps)

lemma show_int_8090: "show_int 8090 = js ''8090''"
  by (simp add: show_int_def show_nat.simps)


section \<open>Properties of retryWithBackoff\<close>

lemma retry_loop_past:
  "m < attempt \<Longrightarrow>
   retry_loop fn m b c attempt le ds = \<lparr>outcome = Inl le, calls = attempt - 1, delays = ds\<rparr>"
  by (subst retry_loop.simps) simp

lemma retry_loop_last:
  "fn m = Inl e \<Longrightarrow> 0 < m \<Longrightarrow>
   retry_loop fn m b c m le ds = \<lparr>outcome = Inl (Some e), calls = m, delays = ds\<rparr>"
  by (subst retry_loop.simps) (simp add: retry_loop_past)

lemma retry_loop_fail:
  "fn attempt = Inl e \<Longrightarrow> attempt < m \<Longrightarrow>
   retry_loop fn m b c attempt le ds =
     retry_loop fn m b c (Suc attempt) (Some e) (ds @ [backoff_delay b c attempt])"
  by (subst retry_loop.simps) simp

lemma retry_loop_ok:
  "fn attempt = Inr v \<Longrightarrow> attempt \<le> m \<Longrightarrow>
   retry_loop fn m b c attempt le ds = \<lparr>outcome = Inr v, calls = attempt, delays = ds\<rparr>"
  by (subst retry_loop.simps) simp

lemma retry_loop_calls_ge:
  "attempt \<le> m \<Longrightarrow> attempt \<le> calls (retry_loop fn m b c attempt le ds)"
proof (induction fn m b c attempt le ds rule: retry_loop.induct)
  case (1 fn m b c attempt le ds)
  show ?case
  proof (cases "fn attempt")
    case (Inr v)
    with "1.prems" show ?thesis by (subst retry_loop.simps) simp
  next
    case (Inl e)
    show ?thesis
    proof (cases "attempt < m")
      case True
      then have "Suc attempt \<le> calls (retry_loop fn m b c (Suc attempt) (Some e)
                   (ds @ [backoff_delay b c attempt]))"
        using "1.IH"(1)[OF "1.prems" Inl True] by simp
      with "1.prems" Inl True show ?thesis by (subst retry_loop.simps) simp
    next
      case False
      with "1.prems" have "attempt = m" by simp
      with Inl show ?thesis
        by (cases "m = 0") (simp_all add: retry_loop_last retry_loop_past)
    qed
  qed
qed

lemma retry_loop_calls_le:
  "attempt \<le> Suc m \<Longrightarrow> calls (retry_loop fn m b c attempt le ds) \<le> m"
proof (induction fn m b c attempt le ds rule: retry_loop.induct)
  case (1 fn m b c attempt le ds)
  show ?case
  proof (cases "attempt \<le> m")
    case False
    with "1.prems" show ?thesis by (subst retry_loop.simps) simp
  next
    case in_range: True
    show ?thesis
    proof (cases "fn attempt")
      case (Inr v)
      with in_range show ?thesis by (subst retry_loop.simps) simp
    next
      case (Inl e)
      show ?thesis
      proof (cases "attempt < m")
        case True
        with "1.IH"(1)[OF in_range Inl True] in_range Inl show ?thesis
          by (subst retry_loop.simps) simp
      next
        case False
        with "1.IH"(2)[OF in_range Inl False] in_range Inl show ?thesis
          by (subst retry_loop.simps) simp
      qed
    qed
  qed
qed

lemma retry_loop_delays:
  "0 < attempt \<Longrightarrow> delays (retry_loop fn m b c attempt le ds) =
     ds @ map (backoff_delay b c) [attempt ..< calls (retry_loop fn m b c attempt le ds)]"
proof (induction fn m b c attempt le ds rule: retry_loop.induct)
  case (1 fn m b c attempt le ds)
  show ?case
  proof (cases "attempt \<le> m")
    case False
    then show ?thesis by (subst (1 2) retry_loop.simps) simp
  next
    case in_range: True
    show ?thesis
    proof (cases "fn attempt")
      case (Inr v)
      with in_range show ?thesis by (subst (1 2) retry_loop.simps) simp
    next
      case (Inl e)
      show ?thesis
      proof (cases "attempt < m")
        case True
        let ?r = "retry_loop fn m b c (Suc attempt) (Some e) (ds @ [backoff_delay b c attempt])"
        have ih: "delays ?r = (ds @ [backoff_delay b c attempt]) @ map (backoff_delay b c) [Suc attempt ..< calls ?r]"
          using "1.IH"(1)[OF in_range Inl True] by simp
        have unf: "retry_loop fn m b c attempt le ds = ?r"
          using in_range Inl True by (subst retry_loop.simps) simp
        have "Suc attempt \<le> calls ?r"
          using True by (intro retry_loop_calls_ge) simp
        then have "[attempt ..< calls ?r] = attempt # [Suc attempt ..< calls ?r]"
          by (simp add: upt_conv_Cons)
        with ih unf show ?thesis by simp
      next
        case False
        with in_range have eq: "attempt = m" by simp
        have "retry_loop fn m b c attempt le ds = \<lparr>outcome = Inl (Some e), calls = m, delays = ds\<rparr>"
          using Inl eq "1.prems" by (simp add: retry_loop_last)
        then show ?thesis using eq by simp
      qed
    qed
  qed
qed

lemma retry_loop_all_fail:
  "0 < attempt \<Longrightarrow> attempt \<le> m \<Longrightarrow> \<forall>k. attempt \<le> k \<and> k \<le> m \<longrightarrow> isl (fn k) \<Longrightarrow>
   outcome (retry_loop fn m b c attempt le ds) = Inl (Some (projl (fn m))) \<and>
   calls (retry_loop fn m b c attempt le ds) = m"
proof (induction fn m b c attempt le ds rule: retry_loop.induct)
  case (1 fn m b c attempt le ds)
  from "1.prems" obtain e where Inl: "fn attempt = Inl e"
    by (metis isl_def order_refl)
  show ?case
  proof (cases "attempt < m")
    case True
    have "outcome (retry_loop fn m b c (Suc attempt) (Some e) (ds @ [backoff_delay b c attempt]))
            = Inl (Some (projl (fn m))) \<and>
          calls (retry_loop fn m b c (Suc attempt) (Some e) (ds @ [backoff_delay b c attempt])) = m"
      using "1.IH"(1)[OF "1.prems"(2) Inl True] True "1.prems"(3) by simp
    with "1.prems"(2) Inl True show ?thesis by (subst (1 2) retry_loop.simps) simp
  next
    case False
    with "1.prems" have "attempt = m" by simp
    with Inl "1.prems"(1) show ?thesis by (simp add: retry_loop_last)
  qed
qed

text \<open>
  C6. With maxAttempts = 10, baseDelay = 100 and maxDelay = 2000 the operation is invoked
  at most 10 times; the delay slept after the failed attempt \<open>k\<close> (before retry \<open>k + 1\<close>)
  is \<open>min (100 * 2 ^ (k - 1)) 2000\<close>; an operation that throws on its first three
  invocations and returns \<open>v\<close> on the fourth makes the wrapper return \<open>v\<close> after exactly
  four invocations and the delays 100, 200, 400; and when all ten invocations throw, the
  error of the tenth is rethrown.
\<close>

theorem retryWithBackoff_schedule:
  "calls (retryWithBackoff fn 10 100 2000) \<le> 10 \<and>
   delays (retryWithBackoff fn 10 100 2000) =
     map (\<lambda>k. min (100 * 2 ^ (k - 1)) 2000) [1 ..< calls (retryWithBackoff fn 10 100 2000)] \<and>
   (fn 1 = Inl e1 \<and> fn 2 = Inl e2 \<and> fn 3 = Inl e3 \<and> fn 4 = Inr v \<longrightarrow>
      retryWithBackoff fn 10 100 2000 =
        \<lparr>outcome = Inr v, calls = 4, delays = [100, 200, 400]\<rparr>) \<and>
   ((\<forall>k. 1 \<le> k \<and> k \<le> 10 \<longrightarrow> isl (fn k)) \<longrightarrow>
      calls (retryWithBackoff fn 10 100 2000) = 10 \<and>
      outcome (retryWithBackoff fn 10 100 2000) = Inl (Some (projl (fn 10))))"
proof (intro conjI impI)
  show "calls (retryWithBackoff fn 10 100 2000) \<le> 10"
    unfolding retryWithBackoff_def by (rule retry_loop_calls_le) simp
next
  have "backoff_delay 100 2000 = (\<lambda>k. min (100 * 2 ^ (k - 1)) 2000)"
    by (rule ext) (simp add: backoff_delay_def)
  then show "delays (retryWithBackoff fn 10 100 2000) =
     map (\<lambda>k. min (100 * 2 ^ (k - 1)) 2000) [1 ..< calls (retryWithBackoff fn 10 100 2000)]"
    unfolding retryWithBackoff_def using retry_loop_delays[of 1 fn 10 100 2000 None "[]"]
    by simp
next
  assume a: "fn 1 = Inl e1 \<and> fn 2 = Inl e2 \<and> fn 3 = Inl e3 \<and> fn 4 = Inr v"
  have "retry_loop fn 10 100 2000 1 None [] = retry_loop fn 10 100 2000 2 (Some e1) [100]"
    using a retry_loop_fail[of fn 1 e1 10 100 2000 None "[]"]
    by (simp add: backoff_delay_def numeral_2_eq_2)
  also have "\<dots> = retry_loop fn 10 100 2000 3 (Some e2) [100, 200]"
    using a retry_loop_fail[of fn 2 e2 10 100 2000 "Some e1" "[100]"]
    by (simp add: backoff_delay_def)
  also have "\<dots> = retry_loop fn 10 100 2000 4 (Some e3) [100, 200, 400]"
    using a retry_loop_fail[of fn 3 e3 10 100 2000 "Some e2" "[100, 200]"]
    by (simp add: backoff_delay_def)
  also have "\<dots> = \<lparr>outcome = Inr v, calls = 4, delays = [100, 200, 400]\<rparr>"
    using a by (simp add: retry_loop_ok)
  finally show "retryWithBackoff fn 10 100 2000 =
        \<lparr>outcome = Inr v, calls = 4, delays = [100, 200, 400]\<rparr>"
    unfolding retryWithBackoff_def .
next
  assume all: "\<forall>k. 1 \<le> k \<and> k \<le> 10 \<longrightarrow> isl (fn k)"
  show "calls (retryWithBackoff fn 10 100 2000) = 10"
    unfolding retryWithBackoff_def using retry_loop_all_fail[of 1 10 fn] all by simp
  show "outcome (retryWithBackoff fn 10 100 2000) = Inl (Some (projl (fn 10)))"
    unfolding retryWithBackoff_def using retry_loop_all_fail[of 1 10 fn] all by simp
qed

theorem retryWithBackoff_schedule_witness:
  "retryWithBackoff (\<lambda>k. if k < 4 then Inl (js ''ECONNREFUSED'') else Inr (7::nat)) 10 100 2000 =
     \<lparr>outcome = Inr 7, calls = 4, delays = [100, 200, 400]\<rparr> \<and>
   calls (retryWithBackoff (\<lambda>k. Inl (js ''ECONNREFUSED'') :: jstring + nat) 10 100 2000) = 10 \<and>
   outcome (retryWithBackoff (\<lambda>k. Inl (js ''ECONNREFUSED'') :: jstring + nat) 10 100 2000) =
     Inl (Some (js ''ECONNREFUSED'')) \<and>
   delays (retryWithBackoff (\<lambda>k. Inl (js ''ECONNREFUSED'') :: jstring + nat) 10 100 2000) =
     [100, 200, 400, 800, 1600, 2000, 2000, 2000, 2000]"
proof -
  let ?ok = "\<lambda>k::nat. if k < 4 then Inl (js ''ECONNREFUSED'') else Inr (7::nat)"
  let ?bad = "\<lambda>k::nat. Inl (js ''ECONNREFUSED'') :: jstring + nat"
  have a: "retryWithBackoff ?ok 10 100 2000 = \<lparr>outcome = Inr 7, calls = 4, delays = [100, 200, 400]\<rparr>"
    using retryWithBackoff_schedule[of ?ok "js ''ECONNREFUSED''" "js ''ECONNREFUSED''" "js ''ECONNREFUSED''" 7]
    by simp
  have b: "calls (retryWithBackoff ?bad 10 100 2000) = 10 \<and>
           outcome (retryWithBackoff ?bad 10 100 2000) = Inl (Some (js ''ECONNREFUSED''))"
    using retryWithBackoff_schedule[of ?bad] by simp
  have c: "delays (retryWithBackoff ?bad 10 100 2000) =
     map (\<lambda>k. min (100 * 2 ^ (k - 1)) 2000) [1 ..< calls (retryWithBackoff ?bad 10 100 2000)]"
    using retryWithBackoff_schedule[of ?bad] by blast
  have d: "[1 ..< 10] = [1, 2, 3, 4, 5, 6, 7, 8, 9::nat]"
    by (simp add: upt_rec)
  from a b c d show ?thesis by simp
qed


section \<open>Loading the configuration\<close>

lemma load_simps [simp]:
  "configContent (load (Some d)) = d"
  "config_file (load (Some d)) = d"
  "cached (load (Some d)) = parse_config d"
  "cached (load None) = default_config"
  by (simp_all add: load_def)

text \<open>
  The number patterns of \<open>load\<close> read digits only, so no file gives the configuration a
  negative number: a setting written with a minus sign does not match, and the default
  stays.
\<close>

lemma load_number_nonneg: "0 \<le> old \<Longrightarrow> 0 \<le> load_number m old"
  by (simp add: load_number_def parseInt_def split: option.splits)

lemma load_Backup_nonneg:
  "0 \<le> KeepLast b \<Longrightarrow> 0 \<le> Schedule b \<Longrightarrow>
   0 \<le> KeepLast (load_Backup body b) \<and> 0 \<le> Schedule (load_Backup body b)"
  by (simp add: load_Backup_def load_number_nonneg)

lemma load_never_negative:
  "0 \<le> KeepLast (Backup (cached (load file))) \<and> 0 \<le> Schedule (Backup (cached (load file))) \<and>
   0 \<le> Port (cached (load file))"
proof (cases "file")
  case None
  then show ?thesis by (simp add: default_config_def)
next
  case (Some d)
  have d: "0 \<le> KeepLast (Backup default_config)" "0 \<le> Schedule (Backup default_config)"
    "0 \<le> Port default_config"
    by (simp_all add: default_config_def)
  have "0 \<le> KeepLast (Backup (parse_config d)) \<and> 0 \<le> Schedule (Backup (parse_config d))"
    using load_Backup_nonneg[OF d(1,2)] d(1,2)
    by (simp add: parse_config_def load_table_def split: option.splits)
  moreover have "0 \<le> Port (parse_config d)"
    using d(3) by (simp add: parse_config_def load_number_nonneg)
  ultimately show ?thesis using Some by simp
qed

text \<open>What \<open>load\<close> reads from the four files.\<close>

named_theorems load_defs

declare
  parse_config_def [load_defs] load_table_def [load_defs] load_Backup_def [load_defs]
  load_Migrations_def [load_defs] load_SMTP_def [load_defs] load_S3_def [load_defs]
  load_boolean_def [load_defs] load_text_def [load_defs] load_number_def [load_defs]
  simpleMatch_def [load_defs] group1_def [load_defs] js_match_def [load_defs]
  re_assign_boolean_def [load_defs] re_value_quoted_def [load_defs]
  re_value_digits_def [load_defs] re_table_group_def [load_defs] key_eq_def [load_defs]
  quoted_def [load_defs] digits_def [load_defs] boolean_def [load_defs]
  braced_def [load_defs] is_space_ch [load_defs] is_digit_ch [load_defs] dq_def [load_defs]
  Let_def [load_defs]

section \<open>Configuration validation and the early return\<close>

lemma validateConfig_fails:
  "validation_errors (config_of s) \<noteq> [] \<Longrightarrow>
   validateConfig s =
     (False, s\<lparr>status := (status s)\<lparr>errors := errors (status s) @
                                               validation_errors (config_of s)\<rparr>\<rparr>)"
  by (simp add: validateConfig_def Let_def)

lemma startPocketBase_invalid:
  assumes "x \<in> set (validation_errors (config_of s))"
  shows "\<not> fst (validateConfig s)"
    and "fst (startPocketBase e s) = Resolved ()"
    and "x \<in> set (errors (status (snd (startPocketBase e s))))"
    and "pocketbaseProcess (snd (startPocketBase e s)) = pocketbaseProcess s"
    and "trace (snd (startPocketBase e s)) =
           trace s @ [DisplayStatus (if superuserEmail (status s) = [] then None
                      else Some (superuserEmail (status s), superuserPassword (status s)))]"
proof -
  from assms have ne: "validation_errors (config_of s) \<noteq> []" by auto
  note v = validateConfig_fails[OF ne]
  show "\<not> fst (validateConfig s)" by (simp add: v)
  show "fst (startPocketBase e s) = Resolved ()" by (simp add: startPocketBase_def v)
  show "x \<in> set (errors (status (snd (startPocketBase e s))))"
    using assms by (simp add: startPocketBase_def v)
  show "pocketbaseProcess (snd (startPocketBase e s)) = pocketbaseProcess s"
    by (simp add: startPocketBase_def v)
  show "trace (snd (startPocketBase e s)) =
           trace s @ [DisplayStatus (if superuserEmail (status s) = [] then None
                      else Some (superuserEmail (status s), superuserPassword (status s)))]"
    by (simp add: startPocketBase_def v)
qed

lemma rejected_before_spawnI:
  "x \<in> set (validation_errors (config_of s)) \<Longrightarrow> rejected_before_spawn e s x"
  unfolding rejected_before_spawn_def by (intro conjI startPocketBase_invalid) simp_all

text \<open>
  What \<open>validateConfig\<close> does with a configuration object, whatever state it is in:
  for Port = 0, Port = 70000, Backup.KeepLast = -1 with backups enabled, and SMTP
  enabled with an empty SMTP host, validation fails, the error list receives the error
  of that case, the four errors are pairwise different, and \<open>startPocketBase\<close> returns
  after printing the status, without spawning the server process.
\<close>

lemma validateConfig_rejects:
  "(Port (config_of s) = 0 \<longrightarrow>
      rejected_before_spawn e s (js ''Invalid port: 0 (must be 1-65535)'')) \<and>
   (Port (config_of s) = 70000 \<longrightarrow>
      rejected_before_spawn e s (js ''Invalid port: 70000 (must be 1-65535)'')) \<and>
   (Backup_Enabled (Backup (config_of s)) \<and> KeepLast (Backup (config_of s)) = - 1 \<longrightarrow>
      rejected_before_spawn e s (js ''Backup.KeepLast must be >= 0'')) \<and>
   (SMTP_Enabled (SMTP (Advanced (config_of s))) \<and> SMTP_Host (SMTP (Advanced (config_of s))) = [] \<longrightarrow>
      rejected_before_spawn e s (js ''SMTP enabled but Host is empty'')) \<and>
   distinct [js ''Invalid port: 0 (must be 1-65535)'', js ''Invalid port: 70000 (must be 1-65535)'',
             js ''Backup.KeepLast must be >= 0'', js ''SMTP enabled but Host is empty'']"
proof (intro conjI impI)
  assume "Port (config_of s) = 0"
  then have "js ''Invalid port: 0 (must be 1-65535)'' \<in> set (validation_errors (config_of s))"
    by (simp add: validation_errors_def show_int_0)
  then show "rejected_before_spawn e s (js ''Invalid port: 0 (must be 1-65535)'')"
    by (rule rejected_before_spawnI)
next
  assume "Port (config_of s) = 70000"
  then have "js ''Invalid port: 70000 (must be 1-65535)'' \<in> set (validation_errors (config_of s))"
    by (simp add: validation_errors_def show_int_70000)
  then show "rejected_before_spawn e s (js ''Invalid port: 70000 (must be 1-65535)'')"
    by (rule rejected_before_spawnI)
next
  assume "Backup_Enabled (Backup (config_of s)) \<and> KeepLast (Backup (config_of s)) = - 1"
  then have "js ''Backup.KeepLast must be >= 0'' \<in> set (validation_errors (config_of s))"
    by (simp add: validation_errors_def)
  then show "rejected_before_spawn e s (js ''Backup.KeepLast must be >= 0'')"
    by (rule rejected_before_spawnI)
next
  assume "SMTP_Enabled (SMTP (Advanced (config_of s))) \<and> SMTP_Host (SMTP (Advanced (config_of s))) = []"
  then have "js ''SMTP enabled but Host is empty'' \<in> set (validation_errors (config_of s))"
    by (simp add: validation_errors_def)
  then show "rejected_before_spawn e s (js ''SMTP enabled but Host is empty'')"
    by (rule rejected_before_spawnI)
next
  show "distinct [js ''Invalid port: 0 (must be 1-65535)'', js ''Invalid port: 70000 (must be 1-65535)'',
             js ''Backup.KeepLast must be >= 0'', js ''SMTP enabled but Host is empty'']"
    by simp
qed


text \<open>
  The configuration object comes from \<open>load\<close>. Three of the four configurations reach
  \<open>validateConfig\<close> from a file and are rejected before the server is spawned.
\<close>

lemma load_port_zero: "parse_config port_zero_lua = default_config\<lparr>Port := 0\<rparr>"
  by (simp add: port_zero_lua_def load_defs default_config_def parseInt_def digit_val_def)

lemma load_port_70000: "parse_config port_70000_lua = default_config\<lparr>Port := 70000\<rparr>"
  by (simp add: port_70000_lua_def load_defs default_config_def parseInt_def digit_val_def)

lemma load_smtp_no_host:
  "parse_config smtp_no_host_lua =
     default_config\<lparr>Advanced := (Advanced default_config)
       \<lparr>SMTP := (SMTP (Advanced default_config))\<lparr>SMTP_Enabled := True\<rparr>\<rparr>\<rparr>"
  by (simp add: smtp_no_host_lua_def load_defs default_config_def)

lemma rejected_files:
  "rejected_before_spawn calm_env (initial_server (Some port_zero_lua))
     (js ''Invalid port: 0 (must be 1-65535)'') \<and>
   rejected_before_spawn calm_env (initial_server (Some port_70000_lua))
     (js ''Invalid port: 70000 (must be 1-65535)'') \<and>
   rejected_before_spawn calm_env (initial_server (Some smtp_no_host_lua))
     (js ''SMTP enabled but Host is empty'')"
proof -
  have c: "config_of (initial_server (Some d)) = parse_config d" for d
    by (simp add: config_of_def initial_server_def)
  have "Port (config_of (initial_server (Some port_zero_lua))) = 0"
    by (simp add: c load_port_zero)
  moreover have "Port (config_of (initial_server (Some port_70000_lua))) = 70000"
    by (simp add: c load_port_70000)
  moreover have "SMTP_Enabled (SMTP (Advanced (config_of (initial_server (Some smtp_no_host_lua))))) \<and>
        SMTP_Host (SMTP (Advanced (config_of (initial_server (Some smtp_no_host_lua))))) = []"
    by (simp add: c load_smtp_no_host default_config_def)
  ultimately show ?thesis
    using validateConfig_rejects[of "initial_server (Some port_zero_lua)" calm_env]
      validateConfig_rejects[of "initial_server (Some port_70000_lua)" calm_env]
      validateConfig_rejects[of "initial_server (Some smtp_no_host_lua)" calm_env]
    by blast
qed

lemma load_negative_KeepLast:
  "parse_config negative_KeepLast_lua =
     default_config\<lparr>Backup := (Backup default_config)\<lparr>Backup_Enabled := True\<rparr>\<rparr>"
  by (simp add: negative_KeepLast_lua_def load_defs default_config_def)

text \<open>
  C2, at the failing input. A \<open>config.lua\<close> that enables backups and sets
  \<open>KeepLast = -1\<close> is not rejected. The pattern with which \<open>load\<close> reads the setting
  matches digits only, so the setting is not read and \<open>KeepLast\<close> stays at its default
  of 7; validation passes with no error, and the start sequence goes on to spawn the
  server process.
\<close>

theorem negative_KeepLast_starts_server:
  "KeepLast (Backup (config_of (initial_server (Some negative_KeepLast_lua)))) = 7 \<and>
   Backup_Enabled (Backup (config_of (initial_server (Some negative_KeepLast_lua)))) \<and>
   validateConfig (initial_server (Some negative_KeepLast_lua)) =
     (True, initial_server (Some negative_KeepLast_lua)) \<and>
   errors (status (snd (startPocketBase calm_env (initial_server (Some negative_KeepLast_lua))))) = [] \<and>
   pocketbaseProcess (snd (startPocketBase calm_env (initial_server (Some negative_KeepLast_lua)))) =
     Some (js ''/srv/pocketbase/bin/pocketbase-linux'',
           [js ''serve'', js ''--http=127.0.0.1:8090'', js ''--dir=pb_data'',
            js ''--publicDir=pb_public''])"
proof -
  let ?s = "initial_server (Some negative_KeepLast_lua)"
  have c: "config_of ?s =
             default_config\<lparr>Backup := (Backup default_config)\<lparr>Backup_Enabled := True\<rparr>\<rparr>"
    by (simp add: config_of_def initial_server_def load_negative_KeepLast)
  have k: "KeepLast (Backup (config_of ?s)) = 7" "Backup_Enabled (Backup (config_of ?s))"
    by (simp_all add: c default_config_def)
  have v: "validation_errors (config_of ?s) = []"
    by (simp add: c validation_errors_def default_config_def)
  then have val: "validateConfig ?s = (True, ?s)"
    by (simp add: validateConfig_def)
  have ne: "negative_KeepLast_lua \<noteq> []"
    by (simp add: negative_KeepLast_lua_def)
  have s: "?s =
     \<lparr>status = initial_status,
      configLoader =
        \<lparr>cached = default_config\<lparr>Backup := (Backup default_config)\<lparr>Backup_Enabled := True\<rparr>\<rparr>,
         configContent = negative_KeepLast_lua, config_file = negative_KeepLast_lua\<rparr>,
      pocketbaseProcess = None, stored_backups = [], trace = []\<rparr>"
    by (simp add: initial_server_def load_def load_negative_KeepLast)
  have run: "errors (status (snd (startPocketBase calm_env ?s))) = [] \<and>
     pocketbaseProcess (snd (startPocketBase calm_env ?s)) =
     Some (js ''/srv/pocketbase/bin/pocketbase-linux'',
           [js ''serve'', js ''--http=127.0.0.1:8090'', js ''--dir=pb_data'',
            js ''--publicDir=pb_public''])"
    unfolding s
    by (simp add: run_defs ne show_int_8090)
  from k val run show ?thesis by simp
qed

section \<open>The bind address and the public URL\<close>

lemma await_preserves:
  assumes "P (snd p)" and "\<And>x. P (snd (k x (snd p)))"
  shows "P (snd (await p k))"
  using assms by (cases p) (auto simp: await_def split: promise.splits)

lemma rotation_loop_status:
  "status (foldl (\<lambda>s' b. snd (deleteBackup e (key b) s')) s bs) = status s"
  by (induction bs arbitrary: s) (simp_all add: deleteBackup_def)

lemma rotation_loop_config:
  "config_of (foldl (\<lambda>s' b. snd (deleteBackup e (key b) s')) s bs) = config_of s"
  by (induction bs arbitrary: s) (simp_all add: deleteBackup_def config_of_def)

lemma manageBackupRotation_status [simp]:
  "status (manageBackupRotation e s) = status s"
  by (simp add: manageBackupRotation_def rotation_loop_status)

lemma resolved_as_simps [simp]:
  "resolved_as b u ws (record_action a s) = resolved_as b u ws s"
  "resolved_as b u ws s \<Longrightarrow> resolved_as b u ws (push_warning w s)"
  "resolved_as b u ws (push_error x s) = resolved_as b u ws s"
  "resolved_as b u ws s \<Longrightarrow> resolved_as b u ws (displayStartupStatus s)"
  "resolved_as b u ws (manageBackupRotation e s) = resolved_as b u ws s"
  by (simp_all add: resolved_as_def displayStartupStatus_def Let_def list_all_iff)

lemma saveGeneratedCredentials_resolved:
  "resolved_as b u ws s \<Longrightarrow> resolved_as b u ws (saveGeneratedCredentials e em pw s)"
  by (cases "updateSuperuserCredentials (write_ok e) em pw (configLoader s)")
     (auto simp add: saveGeneratedCredentials_def resolved_as_def list_all_iff Let_def)

lemma upsertSuperuser_resolved:
  assumes "resolved_as b u ws s"
  shows "resolved_as b u ws (snd (upsertSuperuser e p em pw n s))"
  unfolding upsertSuperuser_def Let_def
proof (rule await_preserves)
  show "resolved_as b u ws
          (snd (spawnWithTimeout (os e) p
                  [js ''superuser'', js ''upsert'', em, pw, js ''--dir'', DataDir (Advanced (config_of s))] 5000,
                record_action (RunCommand p
                  [js ''superuser'', js ''upsert'', em, pw, js ''--dir'', DataDir (Advanced (config_of s))] 5000) s))"
    using assms by simp
next
  fix x
  show "resolved_as b u ws
          (snd (if code x = Some 0 \<or> str_includes (stdout x) (js ''Successfully saved superuser'')
                then (Resolved True,
                      if n then saveGeneratedCredentials e em pw
                                  (snd (spawnWithTimeout (os e) p
                  [js ''superuser'', js ''upsert'', em, pw, js ''--dir'', DataDir (Advanced (config_of s))] 5000,
                record_action (RunCommand p
                  [js ''superuser'', js ''upsert'', em, pw, js ''--dir'', DataDir (Advanced (config_of s))] 5000) s))
                      else snd (spawnWithTimeout (os e) p
                  [js ''superuser'', js ''upsert'', em, pw, js ''--dir'', DataDir (Advanced (config_of s))] 5000,
                record_action (RunCommand p
                  [js ''superuser'', js ''upsert'', em, pw, js ''--dir'', DataDir (Advanced (config_of s))] 5000) s))
                else (Resolved False,
                      push_error (js ''Failed to configure superuser (code '' @
                                  show_code (code x) @ js '')'')
                        (snd (spawnWithTimeout (os e) p
                  [js ''superuser'', js ''upsert'', em, pw, js ''--dir'', DataDir (Advanced (config_of s))] 5000,
                record_action (RunCommand p
                  [js ''superuser'', js ''upsert'', em, pw, js ''--dir'', DataDir (Advanced (config_of s))] 5000) s)))))"
    using assms by (simp add: saveGeneratedCredentials_resolved)
qed

lemma createSuperuser_resolved:
  "resolved_as b u ws s \<Longrightarrow> resolved_as b u ws (snd (createSuperuser e p ip s))"
  by (simp add: createSuperuser_def upsertSuperuser_resolved)

lemma applyPendingMigrations_resolved:
  "resolved_as b u ws s \<Longrightarrow> resolved_as b u ws (snd (applyPendingMigrations e p s))"
  by (simp add: applyPendingMigrations_def Let_def split: promise.splits)

lemma performStartupBackup_resolved:
  "resolved_as b u ws s \<Longrightarrow> resolved_as b u ws (performStartupBackup e s)"
  by (auto simp: performStartupBackup_def createBackup_def Let_def resolved_as_def list_all_iff
      split: option.splits)

lemma spawnServer_resolved:
  "resolved_as b u ws s \<Longrightarrow> resolved_as b u ws (snd (spawnServer e p s))"
  by (auto simp: spawnServer_def resolved_as_def split: spawn_outcome.splits)

lemma after_binding_resolved:
  assumes "resolved_as b u ws s3"
  shows "resolved_as b u ws
           (snd (await (createSuperuser e p ip s3)
              (\<lambda>superuserSuccess s4.
                 if \<not> superuserSuccess then (Resolved (), displayStartupStatus s4)
                 else await (applyPendingMigrations e p s4)
                        (\<lambda>_ s5. spawnServer e p (performStartupBackup e s5)))))"
proof (rule await_preserves)
  show "resolved_as b u ws (snd (createSuperuser e p ip s3))"
    using assms by (rule createSuperuser_resolved)
next
  fix x
  let ?s4 = "snd (createSuperuser e p ip s3)"
  have r4: "resolved_as b u ws ?s4"
    using assms by (rule createSuperuser_resolved)
  have "resolved_as b u ws
          (snd (await (applyPendingMigrations e p ?s4)
                  (\<lambda>_ s5. spawnServer e p (performStartupBackup e s5))))"
  proof (rule await_preserves)
    show "resolved_as b u ws (snd (applyPendingMigrations e p ?s4))"
      using r4 by (rule applyPendingMigrations_resolved)
  next
    fix y
    show "resolved_as b u ws
            (snd (spawnServer e p (performStartupBackup e (snd (applyPendingMigrations e p ?s4)))))"
      by (intro spawnServer_resolved performStartupBackup_resolved
            applyPendingMigrations_resolved r4)
  qed
  then show "resolved_as b u ws
          (snd (if \<not> x then (Resolved (), displayStartupStatus ?s4)
                else await (applyPendingMigrations e p ?s4)
                       (\<lambda>_ s5. spawnServer e p (performStartupBackup e s5))))"
    using r4 by simp
qed

lemma checkAndUpdate_settles:
  assumes "\<not> AutoUpdate (config_of s) \<or>
           (case spawnWithTimeout (os e) p [js ''update''] 30000 of
              Resolved r \<Rightarrow> True | Rejected x \<Rightarrow> False | Pending \<Rightarrow> False)"
  shows "fst (checkAndUpdate e p s) = Resolved True"
    and "config_of (snd (checkAndUpdate e p s)) = config_of s"
  using assms by (auto simp: checkAndUpdate_def await_def split: promise.splits)

lemma startPocketBase_reaches_binding:
  assumes "reaches_binding e s"
    and "\<And>s2. config_of s2 = config_of s \<Longrightarrow> resolved_as b u ws (snd (resolveBinding e s2))"
  shows "resolved_as b u ws (snd (startPocketBase e s))"
proof -
  from assms(1) obtain p where p: "pb_path e = Some p"
    and ok: "validation_errors (config_of s) = []"
    and up: "\<not> AutoUpdate (config_of s) \<or>
           (case spawnWithTimeout (os e) p [js ''update''] 30000 of
              Resolved r \<Rightarrow> True | Rejected x \<Rightarrow> False | Pending \<Rightarrow> False)"
    by (auto simp: reaches_binding_def split: option.splits)
  let ?s1 = "s\<lparr>status := (status s)\<lparr>executablePath := p\<rparr>\<rparr>"
  have c1: "config_of ?s1 = config_of s" by (simp add: config_of_def)
  obtain s2 where cu: "checkAndUpdate e p ?s1 = (Resolved True, s2)"
    and c2: "config_of s2 = config_of s"
    using checkAndUpdate_settles[of ?s1 e p] up c1
    by (cases "checkAndUpdate e p ?s1") auto
  obtain ip s3 where rb: "resolveBinding e s2 = (ip, s3)"
    by (cases "resolveBinding e s2")
  from assms(2)[OF c2] rb have r3: "resolved_as b u ws s3" by simp
  have "startPocketBase e s =
          await (createSuperuser e p ip s3)
              (\<lambda>superuserSuccess s4.
                 if \<not> superuserSuccess then (Resolved (), displayStartupStatus s4)
                 else await (applyPendingMigrations e p s4)
                        (\<lambda>_ s5. spawnServer e p (performStartupBackup e s5)))"
    by (simp add: startPocketBase_def validateConfig_def ok p cu rb await_def)
  then show ?thesis using after_binding_resolved[OF r3] by simp
qed

text \<open>
  C4. With ExposeAdmin = false, whatever Host is configured, the binding resolved by the
  start sequence is the loopback address with the configured port and the public URL is
  \<open>http://localhost:<port>\<close>; no IP detection result enters it. This is the value at the
  point of resolution, and the value \<open>startupStatus\<close> holds at the end of every run
  that gets as far as resolving the binding.
\<close>

theorem loopback_binding_when_not_exposed:
  "\<not> ExposeAdmin (config_of s) \<Longrightarrow>
   resolved_as (js ''127.0.0.1:'' @ show_int (Port (config_of s)))
     (js ''http://localhost:'' @ show_int (Port (config_of s))) [] (snd (resolveBinding e s)) \<and>
   fst (resolveBinding e s) = None \<and>
   (reaches_binding e s \<longrightarrow>
      resolved_as (js ''127.0.0.1:'' @ show_int (Port (config_of s)))
        (js ''http://localhost:'' @ show_int (Port (config_of s))) [] (snd (startPocketBase e s)))"
proof (intro conjI impI)
  assume na: "\<not> ExposeAdmin (config_of s)"
  have r: "resolved_as (js ''127.0.0.1:'' @ show_int (Port (config_of s)))
     (js ''http://localhost:'' @ show_int (Port (config_of s))) [] (snd (resolveBinding e s2))"
    if "config_of s2 = config_of s" for s2
    using that na by (simp add: resolveBinding_def Let_def set_binding_def resolved_as_def)
  from r[of s] show "resolved_as (js ''127.0.0.1:'' @ show_int (Port (config_of s)))
     (js ''http://localhost:'' @ show_int (Port (config_of s))) [] (snd (resolveBinding e s))"
    by simp
  from na show "fst (resolveBinding e s) = None"
    by (simp add: resolveBinding_def Let_def)
  assume "reaches_binding e s"
  then show "resolved_as (js ''127.0.0.1:'' @ show_int (Port (config_of s)))
        (js ''http://localhost:'' @ show_int (Port (config_of s))) [] (snd (startPocketBase e s))"
    using r by (rule startPocketBase_reaches_binding)
qed

theorem loopback_binding_when_not_exposed_witness:
  "\<not> ExposeAdmin (config_of (server_with (default_config\<lparr>Host := js ''198.51.100.20''\<rparr>))) \<and>
   resolved_as (js ''127.0.0.1:8090'') (js ''http://localhost:8090'') []
     (snd (resolveBinding calm_env (server_with (default_config\<lparr>Host := js ''198.51.100.20''\<rparr>)))) \<and>
   reaches_binding calm_env (server_with (default_config\<lparr>Host := js ''198.51.100.20''\<rparr>)) \<and>
   resolved_as (js ''127.0.0.1:8090'') (js ''http://localhost:8090'') []
     (snd (startPocketBase calm_env (server_with (default_config\<lparr>Host := js ''198.51.100.20''\<rparr>))))"
proof -
  let ?s = "server_with (default_config\<lparr>Host := js ''198.51.100.20''\<rparr>)"
  have h: "\<not> ExposeAdmin (config_of ?s)"
    by (simp add: server_with_def config_of_def default_config_def)
  have p: "Port (config_of ?s) = 8090"
    by (simp add: server_with_def config_of_def default_config_def)
  have r: "reaches_binding calm_env ?s"
    by (simp add: reaches_binding_def validation_errors_def server_with_def config_of_def
        default_config_def calm_env_def)
  from loopback_binding_when_not_exposed[OF h, of calm_env] r h p show ?thesis
    by (simp add: show_int_8090)
qed

text \<open>
  C5. With ExposeAdmin = true and an empty Host the server binds to the wildcard address.
  When the IP echo service answers with a non-empty body, the public URL is
  \<open>http://<trimmed body>:<port>\<close> and no warning is added; when the request fails, or
  the body is empty, the public URL is \<open>http://0.0.0.0:<port>\<close> and the warning about
  the undetected IP is appended to the warnings list. These are the values at the point
  of resolution and at the end of every run that gets as far as resolving the binding.
\<close>

theorem public_url_from_detected_ip:
  "ExposeAdmin (config_of s) \<Longrightarrow> Host (config_of s) = [] \<Longrightarrow>
   (ip_lookup e = IpBody d \<and> trim d \<noteq> [] \<longrightarrow>
      resolved_as (js ''0.0.0.0:'' @ show_int (Port (config_of s)))
        (js ''http://'' @ trim d @ js '':'' @ show_int (Port (config_of s))) []
        (snd (resolveBinding e s)) \<and>
      warnings (status (snd (resolveBinding e s))) = warnings (status s) \<and>
      (reaches_binding e s \<longrightarrow>
         resolved_as (js ''0.0.0.0:'' @ show_int (Port (config_of s)))
           (js ''http://'' @ trim d @ js '':'' @ show_int (Port (config_of s))) []
           (snd (startPocketBase e s)))) \<and>
   ((\<exists>m. ip_lookup e = IpError m) \<or> (\<exists>d. ip_lookup e = IpBody d \<and> trim d = []) \<longrightarrow>
      resolved_as (js ''0.0.0.0:'' @ show_int (Port (config_of s)))
        (js ''http://0.0.0.0:'' @ show_int (Port (config_of s)))
        [js ''Could not detect public IP - configure Config.Host manually'']
        (snd (resolveBinding e s)) \<and>
      warnings (status (snd (resolveBinding e s))) =
        warnings (status s) @ [js ''Could not detect public IP - configure Config.Host manually''] \<and>
      (reaches_binding e s \<longrightarrow>
         resolved_as (js ''0.0.0.0:'' @ show_int (Port (config_of s)))
           (js ''http://0.0.0.0:'' @ show_int (Port (config_of s)))
           [js ''Could not detect public IP - configure Config.Host manually'']
           (snd (startPocketBase e s))))"
proof (intro conjI impI)
  assume ex: "ExposeAdmin (config_of s)" and host: "Host (config_of s) = []"
  {
    assume ip: "ip_lookup e = IpBody d \<and> trim d \<noteq> []"
    have r: "resolved_as (js ''0.0.0.0:'' @ show_int (Port (config_of s)))
        (js ''http://'' @ trim d @ js '':'' @ show_int (Port (config_of s))) []
        (snd (resolveBinding e s2))"
      if "config_of s2 = config_of s" for s2
      using that ex host ip
      by (simp add: resolveBinding_def Let_def set_binding_def resolved_as_def getPublicIP_def)
    from r[of s] show "resolved_as (js ''0.0.0.0:'' @ show_int (Port (config_of s)))
        (js ''http://'' @ trim d @ js '':'' @ show_int (Port (config_of s))) []
        (snd (resolveBinding e s))" by simp
    show "warnings (status (snd (resolveBinding e s))) = warnings (status s)"
      using ex host ip
      by (simp add: resolveBinding_def Let_def set_binding_def getPublicIP_def)
    assume "reaches_binding e s"
    then show "resolved_as (js ''0.0.0.0:'' @ show_int (Port (config_of s)))
           (js ''http://'' @ trim d @ js '':'' @ show_int (Port (config_of s))) []
           (snd (startPocketBase e s))"
      using r by (rule startPocketBase_reaches_binding)
  }
  {
    assume ip: "(\<exists>m. ip_lookup e = IpError m) \<or> (\<exists>d. ip_lookup e = IpBody d \<and> trim d = [])"
    then have none: "getPublicIP (ip_lookup e) = None \<or> getPublicIP (ip_lookup e) = Some []"
      by (auto simp: getPublicIP_def)
    have r: "resolved_as (js ''0.0.0.0:'' @ show_int (Port (config_of s)))
        (js ''http://0.0.0.0:'' @ show_int (Port (config_of s)))
        [js ''Could not detect public IP - configure Config.Host manually'']
        (snd (resolveBinding e s2))"
      if "config_of s2 = config_of s" for s2
      using that ex host none
      by (auto simp add: resolveBinding_def Let_def set_binding_def resolved_as_def)
    from r[of s] show "resolved_as (js ''0.0.0.0:'' @ show_int (Port (config_of s)))
        (js ''http://0.0.0.0:'' @ show_int (Port (config_of s)))
        [js ''Could not detect public IP - configure Config.Host manually'']
        (snd (resolveBinding e s))" by simp
    show "warnings (status (snd (resolveBinding e s))) =
        warnings (status s) @ [js ''Could not detect public IP - configure Config.Host manually'']"
      using ex host none
      by (auto simp add: resolveBinding_def Let_def set_binding_def)
    assume "reaches_binding e s"
    then show "resolved_as (js ''0.0.0.0:'' @ show_int (Port (config_of s)))
           (js ''http://0.0.0.0:'' @ show_int (Port (config_of s)))
           [js ''Could not detect public IP - configure Config.Host manually'']
           (snd (startPocketBase e s))"
      using r by (rule startPocketBase_reaches_binding)
  }
qed

theorem public_url_from_detected_ip_witness:
  "ExposeAdmin (config_of (server_with (default_config\<lparr>ExposeAdmin := True\<rparr>))) \<and>
   Host (config_of (server_with (default_config\<lparr>ExposeAdmin := True\<rparr>))) = [] \<and>
   ip_lookup calm_env = IpBody (js ''203.0.113.7'') \<and>
   reaches_binding calm_env (server_with (default_config\<lparr>ExposeAdmin := True\<rparr>)) \<and>
   resolved_as (js ''0.0.0.0:8090'') (js ''http://203.0.113.7:8090'') []
     (snd (startPocketBase calm_env (server_with (default_config\<lparr>ExposeAdmin := True\<rparr>)))) \<and>
   ip_lookup (calm_env\<lparr>ip_lookup := IpError (js ''ENOTFOUND'')\<rparr>) = IpError (js ''ENOTFOUND'') \<and>
   reaches_binding (calm_env\<lparr>ip_lookup := IpError (js ''ENOTFOUND'')\<rparr>)
     (server_with (default_config\<lparr>ExposeAdmin := True\<rparr>)) \<and>
   resolved_as (js ''0.0.0.0:8090'') (js ''http://0.0.0.0:8090'')
     [js ''Could not detect public IP - configure Config.Host manually'']
     (snd (startPocketBase (calm_env\<lparr>ip_lookup := IpError (js ''ENOTFOUND'')\<rparr>)
            (server_with (default_config\<lparr>ExposeAdmin := True\<rparr>))))"
proof -
  let ?s = "server_with (default_config\<lparr>ExposeAdmin := True\<rparr>)"
  let ?e = "calm_env\<lparr>ip_lookup := IpError (js ''ENOTFOUND'')\<rparr>"
  have h1: "ExposeAdmin (config_of ?s)" and h2: "Host (config_of ?s) = []"
    and p: "Port (config_of ?s) = 8090"
    by (simp_all add: server_with_def config_of_def default_config_def)
  have ip: "ip_lookup calm_env = IpBody (js ''203.0.113.7'')" by (simp add: calm_env_def)
  have t: "trim (js ''203.0.113.7'') = js ''203.0.113.7''" by (simp add: trim_def is_space_def)
  have r1: "reaches_binding calm_env ?s"
    by (simp add: reaches_binding_def validation_errors_def server_with_def config_of_def
        default_config_def calm_env_def)
  have r2: "reaches_binding ?e ?s"
    by (simp add: reaches_binding_def validation_errors_def server_with_def config_of_def
        default_config_def calm_env_def)
  have a: "resolved_as (js ''0.0.0.0:8090'') (js ''http://203.0.113.7:8090'') []
             (snd (startPocketBase calm_env ?s))"
    using public_url_from_detected_ip[OF h1 h2, of calm_env "js ''203.0.113.7''"] ip r1 p t
    by (simp add: show_int_8090)
  have b: "resolved_as (js ''0.0.0.0:8090'') (js ''http://0.0.0.0:8090'')
             [js ''Could not detect public IP - configure Config.Host manually'']
             (snd (startPocketBase ?e ?s))"
    using public_url_from_detected_ip[OF h1 h2, of ?e] r2 p
    by (simp add: show_int_8090)
  from h1 h2 ip r1 r2 a b show ?thesis by simp
qed


section \<open>The readiness handshake\<close>

lemma scheduleBackups_simps [simp]:
  "status (scheduleBackups s) = status s"
  "set (trace s) \<subseteq> set (trace (scheduleBackups s))"
  by (auto simp: scheduleBackups_def)


lemma afterHandshake_status [simp]:
  "clientAuthenticated (status (afterHandshake s)) = clientAuthenticated (status s)"
  "healthCheckPassed (status (afterHandshake s)) = healthCheckPassed (status s)"
  by (simp_all add: afterHandshake_def displayStartupStatus_def Let_def)



















section \<open>Superuser provisioning\<close>

lemma upsertSuperuser_keep:
  "configLoader (snd (upsertSuperuser e p em pw False s)) = configLoader s \<and>
   superuserEmail (status (snd (upsertSuperuser e p em pw False s))) = superuserEmail (status s) \<and>
   superuserPassword (status (snd (upsertSuperuser e p em pw False s))) =
     superuserPassword (status s) \<and>
   trace (snd (upsertSuperuser e p em pw False s)) =
     trace s @ [RunCommand p [js ''superuser'', js ''upsert'', em, pw, js ''--dir'',
                              DataDir (Advanced (config_of s))] 5000]"
  by (cases "spawnWithTimeout (os e) p
               [js ''superuser'', js ''upsert'', em, pw, js ''--dir'', DataDir (Advanced (config_of s))] 5000")
     (simp_all add: upsertSuperuser_def await_def Let_def)

lemma createSuperuser_keep:
  assumes "hasConfigCredentials (config_of s)"
  shows "configLoader (snd (createSuperuser e p ip s)) = configLoader s"
    and "superuserEmail (status (snd (createSuperuser e p ip s))) = superuserEmail (status s)"
    and "superuserPassword (status (snd (createSuperuser e p ip s))) =
           superuserPassword (status s)"
    and "trace (snd (createSuperuser e p ip s)) =
           trace s @ [RunCommand p [js ''superuser'', js ''upsert'',
                        Superuser_Email (Superuser (config_of s)),
                        Superuser_Password (Superuser (config_of s)), js ''--dir'',
                        DataDir (Advanced (config_of s))] 5000]"
  using assms upsertSuperuser_keep[of e p "Superuser_Email (Superuser (config_of s))"
      "Superuser_Password (Superuser (config_of s))" s]
  by (simp_all add: createSuperuser_def)

lemma createSuperuser_generates:
  assumes no: "\<not> hasConfigCredentials (config_of s)"
    and ok: "fst (createSuperuser e p ip s) = Resolved True"
    and content: "configContent (configLoader s) \<noteq> []"
    and w: "write_ok e"
  shows "Superuser (config_of (snd (createSuperuser e p ip s))) =
           \<lparr>Superuser_Email = generated_email ip,
            Superuser_Password = generateRandomPassword e 20\<rparr>"
    and "DataDir (Advanced (config_of (snd (createSuperuser e p ip s)))) =
           DataDir (Advanced (config_of s))"
proof -
  let ?args = "[js ''superuser'', js ''upsert'', generated_email ip, generateRandomPassword e 20,
                js ''--dir'', DataDir (Advanced (config_of s))]"
  from no ok obtain r where r: "spawnWithTimeout (os e) p ?args 5000 = Resolved r"
    and good: "code r = Some 0 \<or> str_includes (stdout r) (js ''Successfully saved superuser'')"
    by (cases "spawnWithTimeout (os e) p ?args 5000")
       (auto simp: createSuperuser_def upsertSuperuser_def await_def Let_def split: if_splits)
  have s': "snd (createSuperuser e p ip s) =
          saveGeneratedCredentials e (generated_email ip) (generateRandomPassword e 20)
            (record_action (RunCommand p ?args 5000) (record_action (RandomBytes 20) s))"
    using no r good by (auto simp: createSuperuser_def upsertSuperuser_def await_def Let_def)
  show "Superuser (config_of (snd (createSuperuser e p ip s))) =
           \<lparr>Superuser_Email = generated_email ip,
            Superuser_Password = generateRandomPassword e 20\<rparr>"
    using content w
    by (simp add: s' saveGeneratedCredentials_def updateSuperuserCredentials_def Let_def
        config_of_def)
  show "DataDir (Advanced (config_of (snd (createSuperuser e p ip s)))) =
           DataDir (Advanced (config_of s))"
    using content w
    by (simp add: s' saveGeneratedCredentials_def updateSuperuserCredentials_def Let_def
        config_of_def)
qed

text \<open>
  C7. When the persisted email and password are both non-empty, \<open>createSuperuser\<close>
  runs the upsert command with exactly these two and does nothing else: no random bytes
  are drawn, \<open>updateSuperuserCredentials\<close> is not called, the loader (configuration
  object, document and file) is unchanged, and the display fields \<open>superuserEmail\<close> and
  \<open>superuserPassword\<close> are not set. The loader being unchanged, the same holds for a
  second invocation after it, in any surroundings \<open>e2\<close>. It also holds for a second
  invocation after a first one that generated the credentials, succeeded and saved
  them: the second one reuses the generated pair.
\<close>

theorem createSuperuser_idempotent:
  "(hasConfigCredentials (config_of s) \<longrightarrow>
      reuses_credentials e p ip s \<and>
      reuses_credentials e2 p ip2 (snd (createSuperuser e p ip s)) \<and>
      Superuser (config_of (snd (createSuperuser e p ip s))) = Superuser (config_of s)) \<and>
   (\<not> hasConfigCredentials (config_of s) \<and> fst (createSuperuser e p ip s) = Resolved True \<and>
    configContent (configLoader s) \<noteq> [] \<and> write_ok e \<and> random_base64 e 20 \<noteq> [] \<longrightarrow>
      reuses_credentials e2 p ip2 (snd (createSuperuser e p ip s)) \<and>
      Superuser (config_of (snd (createSuperuser e p ip s))) =
        \<lparr>Superuser_Email = generated_email ip,
         Superuser_Password = generateRandomPassword e 20\<rparr>)"
proof (intro conjI impI)
  assume has: "hasConfigCredentials (config_of s)"
  show r1: "reuses_credentials e p ip s"
    unfolding reuses_credentials_def using createSuperuser_keep[OF has] by simp
  have same: "config_of (snd (createSuperuser e p ip s)) = config_of s"
    using createSuperuser_keep(1)[OF has] by (simp add: config_of_def)
  then have has': "hasConfigCredentials (config_of (snd (createSuperuser e p ip s)))"
    using has by simp
  show "reuses_credentials e2 p ip2 (snd (createSuperuser e p ip s))"
    unfolding reuses_credentials_def using createSuperuser_keep[OF has'] by simp
  show "Superuser (config_of (snd (createSuperuser e p ip s))) = Superuser (config_of s)"
    using same by simp
next
  assume a: "\<not> hasConfigCredentials (config_of s) \<and> fst (createSuperuser e p ip s) = Resolved True \<and>
    configContent (configLoader s) \<noteq> [] \<and> write_ok e \<and> random_base64 e 20 \<noteq> []"
  then have su: "Superuser (config_of (snd (createSuperuser e p ip s))) =
        \<lparr>Superuser_Email = generated_email ip,
         Superuser_Password = generateRandomPassword e 20\<rparr>"
    by (intro createSuperuser_generates) simp_all
  then show "Superuser (config_of (snd (createSuperuser e p ip s))) =
        \<lparr>Superuser_Email = generated_email ip,
         Superuser_Password = generateRandomPassword e 20\<rparr>" .
  from su a have has': "hasConfigCredentials (config_of (snd (createSuperuser e p ip s)))"
    by (simp add: hasConfigCredentials_def generated_email_def generateRandomPassword_def)
  show "reuses_credentials e2 p ip2 (snd (createSuperuser e p ip s))"
    unfolding reuses_credentials_def using createSuperuser_keep[OF has'] by simp
qed

theorem createSuperuser_idempotent_witness:
  "hasConfigCredentials (config_of (server_with
     (default_config\<lparr>Superuser := \<lparr>Superuser_Email = js ''ops@example.org'',
                                     Superuser_Password = js ''correct-horse''\<rparr>\<rparr>))) \<and>
   trace (snd (createSuperuser calm_env (js ''/srv/pocketbase/bin/pocketbase-linux'') None
     (server_with (default_config\<lparr>Superuser := \<lparr>Superuser_Email = js ''ops@example.org'',
                                     Superuser_Password = js ''correct-horse''\<rparr>\<rparr>)))) =
     [RunCommand (js ''/srv/pocketbase/bin/pocketbase-linux'')
        [js ''superuser'', js ''upsert'', js ''ops@example.org'', js ''correct-horse'', js ''--dir'', js ''pb_data'']
        5000] \<and>
   \<not> hasConfigCredentials (config_of (server_with_document default_config sample_document)) \<and>
   fst (createSuperuser calm_env (js ''/srv/pocketbase/bin/pocketbase-linux'') None
          (server_with_document default_config sample_document)) = Resolved True \<and>
   configContent (configLoader (server_with_document default_config sample_document)) \<noteq> [] \<and>
   write_ok calm_env \<and> random_base64 calm_env 20 \<noteq> [] \<and>
   Superuser (config_of (snd (createSuperuser calm_env (js ''/srv/pocketbase/bin/pocketbase-linux'')
          None (server_with_document default_config sample_document)))) =
     \<lparr>Superuser_Email = js ''admin@localhost.local'',
      Superuser_Password = js ''q83vEjRWeJCrze8SNFZ4''\<rparr> \<and>
   reuses_credentials calm_env (js ''/srv/pocketbase/bin/pocketbase-linux'') None
     (snd (createSuperuser calm_env (js ''/srv/pocketbase/bin/pocketbase-linux'')
          None (server_with_document default_config sample_document)))"
proof -
  let ?p = "js ''/srv/pocketbase/bin/pocketbase-linux''"
  let ?s = "server_with (default_config\<lparr>Superuser :=
              \<lparr>Superuser_Email = js ''ops@example.org'', Superuser_Password = js ''correct-horse''\<rparr>\<rparr>)"
  let ?g = "server_with_document default_config sample_document"
  have h: "hasConfigCredentials (config_of ?s)"
    by (simp add: hasConfigCredentials_def config_of_def server_with_def)
  have cfg: "Superuser (config_of ?s) =
               \<lparr>Superuser_Email = js ''ops@example.org'', Superuser_Password = js ''correct-horse''\<rparr>"
    "DataDir (Advanced (config_of ?s)) = js ''pb_data''" "trace ?s = []"
    by (simp_all add: config_of_def server_with_def default_config_def)
  have t: "trace (snd (createSuperuser calm_env ?p None ?s)) =
     [RunCommand ?p [js ''superuser'', js ''upsert'', js ''ops@example.org'', js ''correct-horse'',
                     js ''--dir'', js ''pb_data''] 5000]"
    using createSuperuser_idempotent[of ?s calm_env ?p None] h cfg
    by (simp add: reuses_credentials_def)
  have n: "\<not> hasConfigCredentials (config_of ?g)"
    by (simp add: hasConfigCredentials_def config_of_def server_with_document_def
        default_config_def)
  have ok: "fst (createSuperuser calm_env ?p None ?g) = Resolved True"
    using n
    by (simp add: createSuperuser_def upsertSuperuser_def await_def Let_def
        spawnWithTimeout_def spawn_def child_run_def spawn_start_def resolve_once_def
        calm_env_def)
  have c: "configContent (configLoader ?g) \<noteq> []"
    by (simp add: server_with_document_def sample_document_def)
  have w: "write_ok calm_env" and r: "random_base64 calm_env 20 \<noteq> []"
    by (simp_all add: calm_env_def)
  have gen: "generated_email None = js ''admin@localhost.local''"
    "generateRandomPassword calm_env 20 = js ''q83vEjRWeJCrze8SNFZ4''"
    by (simp_all add: generated_email_def generateRandomPassword_def calm_env_def)
  from createSuperuser_idempotent[of ?g calm_env ?p None calm_env None] n ok c w r
  have "reuses_credentials calm_env ?p None (snd (createSuperuser calm_env ?p None ?g)) \<and>
        Superuser (config_of (snd (createSuperuser calm_env ?p None ?g))) =
          \<lparr>Superuser_Email = js ''admin@localhost.local'',
           Superuser_Password = js ''q83vEjRWeJCrze8SNFZ4''\<rparr>"
    by (simp add: gen)
  with h t n ok c w r show ?thesis by simp
qed


section \<open>Promises that can reject: spawnWithTimeout and the health probe\<close>

lemma settled_stays:
  "settled st = Some r \<Longrightarrow> settled (foldl child_step st evs) = Some r"
proof (induction evs arbitrary: st)
  case Nil
  then show ?case by simp
next
  case (Cons ev evs)
  from Cons.prems have "settled (child_step st ev) = Some r"
    by (cases ev) (simp_all add: resolve_once_def)
  then show ?case using Cons.IH by simp
qed

text \<open>
  Once \<open>spawn\<close> has returned a child, the promise does not reject: an \<open>error\<close> event
  that comes before any \<open>close\<close> resolves it with code -1 and the error message.
\<close>

lemma spawnWithTimeout_error_event:
  "command \<noteq> [] \<Longrightarrow> sys command args = Child (ErrorEv msg # evs) \<Longrightarrow>
   spawnWithTimeout sys command args t =
     Resolved \<lparr>code = Some (- 1), stdout = [], stderr = msg\<rparr>"
  by (simp add: spawnWithTimeout_def spawn_def child_run_def spawn_start_def resolve_once_def
      settled_stays)

lemma spawnWithTimeout_child_never_rejects:
  "spawn sys command args = Child evs \<Longrightarrow> spawnWithTimeout sys command args t \<noteq> Rejected x"
  by (simp add: spawnWithTimeout_def split: option.splits)

text \<open>
  After a delivered SIGTERM the nested timer finds \<open>childProcess.killed\<close> set and sends
  nothing: SIGKILL is only sent when the SIGTERM could not be delivered.
\<close>

lemma no_sigkill_after_delivered_sigterm:
  "signals (child_run [TimeoutElapsed True, GraceElapsed True]) = [js ''SIGTERM'']"
  by (simp add: child_run_def spawn_start_def)

text \<open>
  C10, at the failing inputs. \<open>spawn\<close> throws for an empty command, whatever the
  operating system would do, and for a file the system cannot execute; in both cases
  the promise of \<open>spawnWithTimeout\<close> is rejected instead of being resolved with code -1.
  A start of the supervisor whose commands meet such a file ends with a rejected
  promise and never prints the status.
\<close>

theorem spawnWithTimeout_rejects_when_spawn_throws:
  "spawnWithTimeout sys [] args t = Rejected (js ''ERR_INVALID_ARG_VALUE'') \<and>
   spawnWithTimeout (\<lambda>command args. SpawnThrows (js ''spawn ENOEXEC''))
     (js ''/srv/pocketbase/bin/pocketbase-linux'') [js ''update''] 30000 = Rejected (js ''spawn ENOEXEC'') \<and>
   startPocketBase (calm_env\<lparr>os := \<lambda>command args. SpawnThrows (js ''spawn ENOEXEC'')\<rparr>)
     (server_with default_config) =
     (Rejected (js ''spawn ENOEXEC''),
      (server_with default_config)
        \<lparr>status := initial_status
           \<lparr>executablePath := js ''/srv/pocketbase/bin/pocketbase-linux'',
            bindAddress := js ''127.0.0.1:8090'', publicUrl := js ''http://localhost:8090''\<rparr>,
         trace := [RandomBytes 20,
                   RunCommand (js ''/srv/pocketbase/bin/pocketbase-linux'')
                     [js ''superuser'', js ''upsert'', js ''admin@localhost.local'',
                      js ''q83vEjRWeJCrze8SNFZ4'', js ''--dir'', js ''pb_data''] 5000]\<rparr>)"
  by (simp add: run_defs show_int_8090)

lemma buildSmartUrl_my_server:
  "buildSmartUrl (js ''my server'') 8090 = Some (js ''http://my server:8090'')"
  by (simp add: buildSmartUrl_def startsWith_def is_ipv4_port_def ipv4_prefix_def
      number_dot_def digits_def is_digit_def is_ipv4_def is_host_char_def is_alpha_def
      is_lower_def is_upper_def show_int_8090)

lemma new_URL_my_server: "new_URL (js ''http://my server:8090'') = None"
  by (simp add: new_URL_def url_strip_def is_c0_or_space_ch url_scheme_def is_scheme_char_def
      is_alpha_def is_lower_def is_upper_def is_digit_def to_lower_def url_host_def)

lemma started_my_server:
  "startPocketBase calm_env
     (server_with (default_config\<lparr>ExposeAdmin := True, Host := js ''my server''\<rparr>)) =
   (Resolved (),
    \<lparr>status = initial_status
       \<lparr>executablePath := js ''/srv/pocketbase/bin/pocketbase-linux'',
        superuserEmail := js ''admin@localhost.local'',
        superuserPassword := js ''q83vEjRWeJCrze8SNFZ4'',
        bindAddress := js ''0.0.0.0:8090'', publicUrl := js ''http://my server:8090'',
        exposeAdmin := True,
        warnings := [js ''Failed to save credentials to config.lua'']\<rparr>,
     configLoader =
       \<lparr>cached = default_config\<lparr>ExposeAdmin := True, Host := js ''my server''\<rparr>,
        configContent = [], config_file = []\<rparr>,
     pocketbaseProcess =
       Some (js ''/srv/pocketbase/bin/pocketbase-linux'',
             [js ''serve'', js ''--http=0.0.0.0:8090'', js ''--dir=pb_data'', js ''--publicDir=pb_public'']),
     stored_backups = [],
     trace =
       [RandomBytes 20,
        RunCommand (js ''/srv/pocketbase/bin/pocketbase-linux'')
          [js ''superuser'', js ''upsert'', js ''admin@localhost.local'', js ''q83vEjRWeJCrze8SNFZ4'',
           js ''--dir'', js ''pb_data''] 5000,
        UpdateCredentials (js ''admin@localhost.local'') (js ''q83vEjRWeJCrze8SNFZ4''),
        RunCommand (js ''/srv/pocketbase/bin/pocketbase-linux'')
          [js ''migrate'', js ''up'', js ''--dir'', js ''pb_data''] 30000,
        SpawnServer (js ''/srv/pocketbase/bin/pocketbase-linux'')
          [js ''serve'', js ''--http=0.0.0.0:8090'', js ''--dir=pb_data'', js ''--publicDir=pb_public''],
        SetReadyDelay 1000]\<rparr>)"
  by (simp add: run_defs show_int_8090 buildSmartUrl_my_server[simplified])

text \<open>
  C8, at the failing input. With ExposeAdmin = true and Host = \<open>my server\<close> the public
  URL built by \<open>buildSmartUrl\<close> is \<open>http://my server:8090\<close>; \<open>new URL\<close> throws on it
  inside the promise executor, so the promise of \<open>checkPublicUrlHealth\<close> is rejected,
  whatever the network does, and the callback that awaits it ends rejected without
  printing the status.
\<close>

theorem checkPublicUrlHealth_rejects_invalid_url:
  "buildSmartUrl (js ''my server'') 8090 = Some (js ''http://my server:8090'') \<and>
   checkPublicUrlHealth net (js ''http://my server:8090'') = Rejected (js ''ERR_INVALID_URL'') \<and>
   publicUrl (status (snd (startPocketBase calm_env
     (server_with (default_config\<lparr>ExposeAdmin := True, Host := js ''my server''\<rparr>))))) =
     js ''http://my server:8090'' \<and>
   fst (serverReadyCallback calm_env (snd (startPocketBase calm_env
     (server_with (default_config\<lparr>ExposeAdmin := True, Host := js ''my server''\<rparr>))))) =
     Rejected (js ''ERR_INVALID_URL'') \<and>
   list_all (\<lambda>a. case a of DisplayStatus d \<Rightarrow> False | _ \<Rightarrow> True)
     (trace (snd (serverReadyCallback calm_env (snd (startPocketBase calm_env
       (server_with (default_config\<lparr>ExposeAdmin := True, Host := js ''my server''\<rparr>)))))))"
  unfolding started_my_server snd_conv buildSmartUrl_my_server
  by (simp add: checkPublicUrlHealth_def new_URL_my_server[simplified] serverReadyCallback_def
      waiting_for_client_def awaitClientReady_def lateClientReady_def onClientReady_def
      record_action_def await_def config_of_def default_config_def initial_status_def
      calm_env_def Let_def)


section \<open>Backup rotation\<close>

lemma rotation_loop_trace:
  "trace (foldl (\<lambda>s' b. snd (deleteBackup e (key b) s')) s ds) =
     trace s @ map (\<lambda>b. DeleteBackup (key b)) ds"
  by (induction ds arbitrary: s) (simp_all add: deleteBackup_def)

lemma rotation_loop_store:
  "stored_backups (foldl (\<lambda>s' b. snd (deleteBackup e (key b) s')) s ds) =
     filter (\<lambda>b. key b \<notin> key ` set ds \<or> delete_throws e (key b)) (stored_backups s)"
proof (induction ds arbitrary: s)
  case Nil
  then show ?case by simp
next
  case (Cons d ds)
  have "stored_backups (snd (deleteBackup e (key d) s)) =
          filter (\<lambda>b. key b \<noteq> key d \<or> delete_throws e (key b)) (stored_backups s)"
    by (auto simp: deleteBackup_def intro: filter_cong)
  then show ?case
    by (auto simp: Cons.IH intro: filter_cong)
qed

lemma insert_sorted_without_dates:
  "created x = None \<Longrightarrow> insert_sorted by_created x ys = x # ys"
  by (cases ys) (simp_all add: sort_compare_def by_created_def split: option.splits)

lemma sort_array_without_dates:
  "list_all (\<lambda>b. created b = None) bs \<Longrightarrow> sort_array by_created bs = bs"
  unfolding sort_array_def
  by (induction bs) (simp_all add: insert_sorted_without_dates)

lemma insert_sorted_with_dates:
  "created x \<noteq> None \<Longrightarrow> list_all (\<lambda>b. created b \<noteq> None) ys \<Longrightarrow>
   insert_sorted by_created x ys = insort_key (\<lambda>b. - the (created b)) x ys"
  by (induction ys) (auto simp: sort_compare_def by_created_def)

text \<open>
  Without dates the sort leaves the list as it is: the records kept are the first
  KeepLast automatic backups in the order of the backend's list, whatever their age.
\<close>

lemma autoBackups_without_dates:
  "list_all (\<lambda>b. created b = None) bs \<Longrightarrow>
   autoBackups pre bs = filter (\<lambda>b. startsWith (key b) pre) bs"
  unfolding autoBackups_def
  by (rule sort_array_without_dates) (simp add: list_all_iff)

lemma insert_sorted_facts:
  "set (insert_sorted c x ys) = insert x (set ys)"
  "length (insert_sorted c x ys) = Suc (length ys)"
  "distinct (insert_sorted c x ys) \<longleftrightarrow> x \<notin> set ys \<and> distinct ys"
  by (induction ys) auto

lemma sort_array_facts:
  "set (sort_array c xs) = set xs"
  "length (sort_array c xs) = length xs"
  "distinct (sort_array c xs) \<longleftrightarrow> distinct xs"
  unfolding sort_array_def
  by (induction xs) (simp_all add: insert_sorted_facts)

lemma sort_array_with_dates:
  assumes "list_all (\<lambda>b. created b \<noteq> None) bs"
  shows "sort_array by_created bs = sort_key (\<lambda>b. - the (created b)) bs"
  using assms
proof (induction bs)
  case Nil
  then show ?case by (simp add: sort_array_def)
next
  case (Cons a bs)
  then have ih: "sort_array by_created bs = sort_key (\<lambda>b. - the (created b)) bs"
    and a: "created a \<noteq> None" by simp_all
  from Cons.prems have "list_all (\<lambda>b. created b \<noteq> None) (sort_array by_created bs)"
    by (simp add: list_all_iff sort_array_facts)
  from insert_sorted_with_dates[OF a this]
  have "insert_sorted by_created a (sort_array by_created bs) =
          insort_key (\<lambda>b. - the (created b)) a (sort_array by_created bs)" .
  then show ?case
    by (simp add: sort_array_def sort_key_def flip: ih[unfolded sort_array_def sort_key_def])
qed

lemma autoBackups_facts:
  "set (autoBackups pre bs) = {b \<in> set bs. startsWith (key b) pre}"
  "length (autoBackups pre bs) = length (filter (\<lambda>b. startsWith (key b) pre) bs)"
  "distinct bs \<Longrightarrow> distinct (autoBackups pre bs)"
  by (simp_all add: autoBackups_def sort_array_facts)

lemma autoBackups_with_dates:
  assumes "list_all (\<lambda>b. created b \<noteq> None) bs"
  shows "sorted (map (\<lambda>b. - the (created b)) (autoBackups pre bs))"
proof -
  from assms have "list_all (\<lambda>b. created b \<noteq> None) (filter (\<lambda>b. startsWith (key b) pre) bs)"
    by (simp add: list_all_iff)
  from sort_array_with_dates[OF this]
  have "autoBackups pre bs =
          sort_key (\<lambda>b. - the (created b)) (filter (\<lambda>b. startsWith (key b) pre) bs)"
    by (simp add: autoBackups_def)
  then show ?thesis by simp
qed

lemma newest_first_split:
  assumes "sorted (map (\<lambda>b. - the (created b)) xs)"
  shows "\<forall>x\<in>set (take n xs). \<forall>y\<in>set (drop n xs).
           the (created y) \<le> the (created (x::backup_record))"
proof -
  have "sorted (map (\<lambda>b. - the (created b)) (take n xs) @
                map (\<lambda>b. - the (created b)) (drop n xs))"
    using assms by (simp flip: map_append)
  then show ?thesis by (auto simp: sorted_append)
qed

text \<open>
  What holds of every list. Let backups be enabled, KeepLast = N > 0, and let the list
  hold M > N records with the automatic prefix, under pairwise different keys. Rotation
  arranges the prefixed records with \<open>sort\<close>, keeps the first N and asks the backend to
  delete the other M - N, in that order and nothing else. Afterwards the N kept
  records and all records without the prefix are still stored, nothing was added, and
  when the backend carries out the deletions the store is the old one without exactly
  those M - N records. (\<open>deleteBackup\<close> catches a deletion the backend refuses; that
  record then stays.) When every record carries a creation date, every kept record is
  at least as new as every record rotation asks to delete.
\<close>

lemma rotation_deletes_surplus:
  fixes s :: server and e :: env and N M :: nat
  defines "A \<equiv> autoBackups (BackupPrefix (Backup (config_of s))) (listBackups e s)"
  defines "s' \<equiv> manageBackupRotation e s"
  assumes "Backup_Enabled (Backup (config_of s))"
    and "KeepLast (Backup (config_of s)) = int N" and "0 < N"
    and "length (filter (auto_prefixed (config_of s)) (listBackups e s)) = M" and "N < M"
    and "distinct (map key (stored_backups s))"
  shows "length (take N A) = N \<and> length (drop N A) = M - N \<and>
         set (take N A) \<union> set (drop N A) =
           {b \<in> set (listBackups e s). auto_prefixed (config_of s) b} \<and>
         set (take N A) \<inter> set (drop N A) = {} \<and>
         (list_all (\<lambda>b. created b \<noteq> None) (listBackups e s) \<longrightarrow>
            (\<forall>x\<in>set (take N A). \<forall>y\<in>set (drop N A). the (created y) \<le> the (created x))) \<and>
         trace s' = trace s @ map (\<lambda>b. DeleteBackup (key b)) (drop N A) \<and>
         (\<forall>b\<in>set (take N A). b \<in> set (stored_backups s')) \<and>
         (\<forall>b\<in>set (stored_backups s). \<not> auto_prefixed (config_of s) b \<longrightarrow>
              b \<in> set (stored_backups s')) \<and>
         set (stored_backups s') \<subseteq> set (stored_backups s) \<and>
         ((\<forall>b\<in>set (drop N A). \<not> delete_throws e (key b)) \<longrightarrow>
            stored_backups s' = filter (\<lambda>b. b \<notin> set (drop N A)) (stored_backups s))"
proof -
  let ?c = "config_of s"
  let ?bs = "listBackups e s"
  have auto_eq: "auto_prefixed ?c = (\<lambda>b. startsWith (key b) (BackupPrefix (Backup ?c)))"
    by (rule ext) (simp add: auto_prefixed_def)
  have lenA: "length A = M"
    using assms(6) by (simp add: A_def autoBackups_facts(2) auto_eq)
  have "?bs \<noteq> []" using assms(6,7) by auto
  then have bs: "?bs = stored_backups s"
    by (simp add: listBackups_def split: if_splits)
  have dist: "distinct (stored_backups s)"
    using assms(8) by (simp add: distinct_map)
  have inj: "inj_on key (set (stored_backups s))"
    using assms(8) by (simp add: distinct_map)
  have setA: "set A = {b \<in> set ?bs. auto_prefixed ?c b}"
    by (simp add: A_def autoBackups_facts(1) auto_prefixed_def)
  have distA: "distinct A"
    using dist by (simp add: A_def bs autoBackups_facts(3))
  have split: "take N A @ drop N A = A" by simp
  have sub_keep: "set (take N A) \<subseteq> set (stored_backups s)"
    and sub_gone: "set (drop N A) \<subseteq> set (stored_backups s)"
    using setA set_take_subset[of N A] set_drop_subset[of N A] by (auto simp: bs)
  have disj: "set (take N A) \<inter> set (drop N A) = {}"
    using distA distinct_append[of "take N A" "drop N A"] by simp
  have long: "\<not> int (length ?bs) \<le> KeepLast (Backup ?c)"
  proof -
    have "M \<le> length ?bs" using assms(6) length_filter_le[of "auto_prefixed ?c" ?bs] by simp
    then show ?thesis using assms(4,7) by simp
  qed
  have unf: "s' = foldl (\<lambda>s' b. snd (deleteBackup e (key b) s')) s (drop N A)"
    using assms(3,4,5) long
    by (simp add: s'_def manageBackupRotation_def toDelete_def A_def)
  have store: "stored_backups s' =
      filter (\<lambda>b. key b \<notin> key ` set (drop N A) \<or> delete_throws e (key b)) (stored_backups s)"
    by (simp add: unf rotation_loop_store)
  have key_mem: "key b \<in> key ` set (drop N A) \<longleftrightarrow> b \<in> set (drop N A)"
    if "b \<in> set (stored_backups s)" for b
    using that sub_gone inj by (auto dest: inj_onD)
  have store': "stored_backups s' =
      filter (\<lambda>b. b \<notin> set (drop N A) \<or> delete_throws e (key b)) (stored_backups s)"
    unfolding store by (rule filter_cong) (auto simp: key_mem)
  have c1: "length (take N A) = N" using lenA assms(7) by simp
  have c2: "length (drop N A) = M - N" using lenA by simp
  have c3: "set (take N A) \<union> set (drop N A) =
           {b \<in> set ?bs. auto_prefixed ?c b}"
    using setA split by (metis set_append)
  have c5: "list_all (\<lambda>b. created b \<noteq> None) (listBackups e s) \<longrightarrow>
            (\<forall>x\<in>set (take N A). \<forall>y\<in>set (drop N A). the (created y) \<le> the (created x))"
  proof
    assume "list_all (\<lambda>b. created b \<noteq> None) (listBackups e s)"
    then have "sorted (map (\<lambda>b. - the (created b)) A)"
      unfolding A_def by (rule autoBackups_with_dates)
    then show "\<forall>x\<in>set (take N A). \<forall>y\<in>set (drop N A). the (created y) \<le> the (created x)"
      by (rule newest_first_split)
  qed
  have c6: "trace s' = trace s @ map (\<lambda>b. DeleteBackup (key b)) (drop N A)"
    by (simp add: unf rotation_loop_trace)
  have c7: "\<forall>b\<in>set (take N A). b \<in> set (stored_backups s')"
    using sub_keep disj by (auto simp: store')
  have c8: "\<forall>b\<in>set (stored_backups s). \<not> auto_prefixed ?c b \<longrightarrow> b \<in> set (stored_backups s')"
  proof (intro ballI impI)
    fix b assume "b \<in> set (stored_backups s)" and "\<not> auto_prefixed ?c b"
    moreover from this have "b \<notin> set A" by (simp add: setA)
    then have "b \<notin> set (drop N A)" using set_drop_subset[of N A] by auto
    ultimately show "b \<in> set (stored_backups s')" by (simp add: store')
  qed
  have c9: "set (stored_backups s') \<subseteq> set (stored_backups s)"
    by (auto simp: store')
  have c10: "(\<forall>b\<in>set (drop N A). \<not> delete_throws e (key b)) \<longrightarrow>
            stored_backups s' = filter (\<lambda>b. b \<notin> set (drop N A)) (stored_backups s)"
    unfolding store' by (auto intro: filter_cong)
  from c1 c2 c3 disj c5 c6 c7 c8 c9 c10 show ?thesis by blast
qed


text \<open>
  C1, at the failing input. The backend lists three automatic backups of three
  successive days and one backup made by hand, none with a \<open>created\<close> field, and the
  supervisor keeps two. Every comparison of the sort is \<open>NaN\<close>, the sort leaves the
  list in the backend's order, and rotation deletes the automatic backup of the third
  day, the most recent one: the backups of the first two days remain, the oldest
  among them.
\<close>

theorem rotation_deletes_newest_without_created:
  "map created (stored_backups rotating_server) = [None, None, None, None] \<and>
   map modified (stored_backups rotating_server) =
     [1735689600000, 1735776000000, 1735862400000, 1735000000000] \<and>
   trace rotated = [DeleteBackup (js ''auto_scheduled_2025-01-03T00-00-00'')] \<and>
   map key (stored_backups rotated) =
     [js ''auto_scheduled_2025-01-01T00-00-00'', js ''auto_scheduled_2025-01-02T00-00-00'',
      js ''before_upgrade'']"
proof -
  have bs: "stored_backups rotating_server = listed_backups"
    "listBackups calm_env rotating_server = listed_backups"
    by (simp_all add: rotating_server_def listBackups_def calm_env_def)
  have a: "autoBackups (js ''auto_'') listed_backups =
             filter (\<lambda>b. startsWith (key b) (js ''auto_'')) listed_backups"
    by (rule autoBackups_without_dates) (simp add: listed_backups_def)
  have d: "toDelete (config_of rotating_server) listed_backups =
             [\<lparr>key = js ''auto_scheduled_2025-01-03T00-00-00'', modified = 1735862400000,
               created = None\<rparr>]"
    using a
    by (simp add: toDelete_def rotating_server_def server_with_def config_of_def
        default_config_def listed_backups_def startsWith_def)
  have r: "rotated =
     snd (deleteBackup calm_env (js ''auto_scheduled_2025-01-03T00-00-00'') rotating_server)"
    using d bs
    by (simp add: rotated_def manageBackupRotation_def rotating_server_def server_with_def
        config_of_def default_config_def listed_backups_def)
  show ?thesis
    unfolding r
    by (simp add: deleteBackup_def calm_env_def rotating_server_def server_with_def
        listed_backups_def)
qed

section \<open>Rewriting the configuration document\<close>

subsection \<open>What a match is\<close>















subsection \<open>The patterns find the first assignment\<close>













subsection \<open>Replacement templates without a dollar sign\<close>







subsection \<open>One replacement\<close>










subsection \<open>The tables\<close>








subsection \<open>The two update functions\<close>






end
